theory Spec2Isabelle
  imports Main
begin

section \<open>Data model of the parser\<close>

text \<open>
  A JavaScript string is a sequence of UTF-16 code units; a code unit is a natural
  number. \<open>charCodeAt\<close> yields \<open>NaN\<close> outside the string: \<open>None\<close> here.
\<close>

type_synonym jsstring = "nat list"

definition js :: "string \<Rightarrow> jsstring" where
  "js cs = map of_char cs"

subsection \<open>The bit sets of \<open>masks.ts\<close>\<close>

text \<open>
  Modelled from the spec: \<open>masks.ts\<close> is not under src/; the names are those that
  \<open>parser.ts\<close> uses and the specification lists.
  \<open>Flags\<close>, \<open>Context\<close>, \<open>RegExpFlag\<close>, \<open>RegExpState\<close> and \<open>NumberState\<close> are bit
  masks, one bit per name. A mask is a set of names: \<open>m & B\<close> is \<open>B \<in> m\<close>,
  \<open>m |= B\<close> is \<open>insert B m\<close>, \<open>m &= ~B\<close> is \<open>m - {B}\<close>.
\<close>

datatype Flags =
    Flags_LineTerminator | Flags_InFunctionBody | Flags_HasRest
  | Flags_HasMemberExpression | Flags_ArgumentList | Flags_AsyncArrow | Flags_Arrow
  | Flags_OptionsJSX | Flags_OptionsNext | Flags_OptionsLoc | Flags_OptionsRanges
  | Flags_OptionsRaw | Flags_OptionsOnComment | Flags_OptionsV8
  | Flags_Bit nat

datatype Context =
    Context_Strict | Context_Module | Context_AllowIn | Context_Yield | Context_Await
  | Context_ForStatement | Context_Binding | Context_Lexical | Context_JSXChild
  | Context_IfClause
  | Context_Bit nat

text \<open>
  \<open>Flags_Bit n\<close> and \<open>Context_Bit n\<close> stand for the bits that no modelled function
  tests or changes by name.
\<close>

datatype RegExpFlag =
    RegExpFlag_Global | RegExpFlag_IgnoreCase | RegExpFlag_Multiline
  | RegExpFlag_Unicode | RegExpFlag_Sticky | RegExpFlag_DotAll

datatype RegExpState = RegExpState_Escape | RegExpState_Class

datatype NumberState = NumberState_Float | NumberState_BigInt

datatype ScopeMasks = Shadowable | NonShadowable

subsection \<open>Tokens\<close>

text \<open>
  Modelled from the spec: \<open>token.ts\<close> is not under src/; the kinds are those that
  \<open>parser.ts\<close> names.
  The token kinds that the scanner returns, grouped as the bit flags of \<open>token.ts\<close>
  group them. The abbreviations below give each kind the name it has in the source.
\<close>

datatype Punctuator =
    Arrow | LeftParen | LeftBrace | Period | Ellipsis | RightBrace | RightParen
  | Semicolon | Comma | LeftBracket | RightBracket | Colon | QuestionMark | JSXClose

datatype AssignOperator =
    Assign | ShiftLeftAssign | ShiftRightAssign | LogicalShiftRightAssign
  | ExponentiateAssign | AddAssign | SubtractAssign | MultiplyAssign | DivideAssign
  | ModuloAssign | BitwiseXorAssign | BitwiseOrAssign | BitwiseAndAssign

datatype UnaryOperator = Increment | Decrement | Negate | Complement

datatype ArithmeticOperator =
    Add | Subtract | Multiply | Modulo | Divide | Exponentiate
  | ShiftLeft | ShiftRight | LogicalShiftRight | BitwiseAnd | BitwiseOr | BitwiseXor

datatype RelationalOperator =
    LogicalAnd | LogicalOr | StrictEqual | StrictNotEqual | LooseEqual | LooseNotEqual
  | LessThanOrEqual | GreaterThanOrEqual | LessThan | GreaterThan

datatype Token =
    Token_EndOfSource
  | Token_Identifier | Token_NumericLiteral | Token_StringLiteral | Token_BigIntLiteral
  | Token_RegularExpression | Token_TemplateCont | Token_TemplateTail
  | Token_Punctuator Punctuator
  | Token_AssignOperator AssignOperator
  | Token_UnaryOperator UnaryOperator
  | Token_ArithmeticOperator ArithmeticOperator
  | Token_RelationalOperator RelationalOperator
  | Token_FunctionKeyword
  | Token_Keyword jsstring

text \<open>
  \<open>Token_Keyword w\<close> stands for the token of any reserved or contextual word \<open>w\<close>
  other than \<open>function\<close>; which words have one is decided by \<open>descKeyword\<close>.
\<close>

abbreviation "Token_Arrow \<equiv> Token_Punctuator Arrow"
abbreviation "Token_LeftParen \<equiv> Token_Punctuator LeftParen"
abbreviation "Token_LeftBrace \<equiv> Token_Punctuator LeftBrace"
abbreviation "Token_Period \<equiv> Token_Punctuator Period"
abbreviation "Token_Ellipsis \<equiv> Token_Punctuator Ellipsis"
abbreviation "Token_RightBrace \<equiv> Token_Punctuator RightBrace"
abbreviation "Token_RightParen \<equiv> Token_Punctuator RightParen"
abbreviation "Token_Semicolon \<equiv> Token_Punctuator Semicolon"
abbreviation "Token_Comma \<equiv> Token_Punctuator Comma"
abbreviation "Token_LeftBracket \<equiv> Token_Punctuator LeftBracket"
abbreviation "Token_RightBracket \<equiv> Token_Punctuator RightBracket"
abbreviation "Token_Colon \<equiv> Token_Punctuator Colon"
abbreviation "Token_QuestionMark \<equiv> Token_Punctuator QuestionMark"
abbreviation "Token_JSXClose \<equiv> Token_Punctuator JSXClose"
abbreviation "Token_Assign \<equiv> Token_AssignOperator Assign"
abbreviation "Token_ShiftLeftAssign \<equiv> Token_AssignOperator ShiftLeftAssign"
abbreviation "Token_ShiftRightAssign \<equiv> Token_AssignOperator ShiftRightAssign"
abbreviation "Token_LogicalShiftRightAssign \<equiv> Token_AssignOperator LogicalShiftRightAssign"
abbreviation "Token_ExponentiateAssign \<equiv> Token_AssignOperator ExponentiateAssign"
abbreviation "Token_AddAssign \<equiv> Token_AssignOperator AddAssign"
abbreviation "Token_SubtractAssign \<equiv> Token_AssignOperator SubtractAssign"
abbreviation "Token_MultiplyAssign \<equiv> Token_AssignOperator MultiplyAssign"
abbreviation "Token_DivideAssign \<equiv> Token_AssignOperator DivideAssign"
abbreviation "Token_ModuloAssign \<equiv> Token_AssignOperator ModuloAssign"
abbreviation "Token_BitwiseXorAssign \<equiv> Token_AssignOperator BitwiseXorAssign"
abbreviation "Token_BitwiseOrAssign \<equiv> Token_AssignOperator BitwiseOrAssign"
abbreviation "Token_BitwiseAndAssign \<equiv> Token_AssignOperator BitwiseAndAssign"
abbreviation "Token_Increment \<equiv> Token_UnaryOperator Increment"
abbreviation "Token_Decrement \<equiv> Token_UnaryOperator Decrement"
abbreviation "Token_Negate \<equiv> Token_UnaryOperator Negate"
abbreviation "Token_Complement \<equiv> Token_UnaryOperator Complement"
abbreviation "Token_Add \<equiv> Token_ArithmeticOperator Add"
abbreviation "Token_Subtract \<equiv> Token_ArithmeticOperator Subtract"
abbreviation "Token_Multiply \<equiv> Token_ArithmeticOperator Multiply"
abbreviation "Token_Modulo \<equiv> Token_ArithmeticOperator Modulo"
abbreviation "Token_Divide \<equiv> Token_ArithmeticOperator Divide"
abbreviation "Token_Exponentiate \<equiv> Token_ArithmeticOperator Exponentiate"
abbreviation "Token_ShiftLeft \<equiv> Token_ArithmeticOperator ShiftLeft"
abbreviation "Token_ShiftRight \<equiv> Token_ArithmeticOperator ShiftRight"
abbreviation "Token_LogicalShiftRight \<equiv> Token_ArithmeticOperator LogicalShiftRight"
abbreviation "Token_BitwiseAnd \<equiv> Token_ArithmeticOperator BitwiseAnd"
abbreviation "Token_BitwiseOr \<equiv> Token_ArithmeticOperator BitwiseOr"
abbreviation "Token_BitwiseXor \<equiv> Token_ArithmeticOperator BitwiseXor"
abbreviation "Token_LogicalAnd \<equiv> Token_RelationalOperator LogicalAnd"
abbreviation "Token_LogicalOr \<equiv> Token_RelationalOperator LogicalOr"
abbreviation "Token_StrictEqual \<equiv> Token_RelationalOperator StrictEqual"
abbreviation "Token_StrictNotEqual \<equiv> Token_RelationalOperator StrictNotEqual"
abbreviation "Token_LooseEqual \<equiv> Token_RelationalOperator LooseEqual"
abbreviation "Token_LooseNotEqual \<equiv> Token_RelationalOperator LooseNotEqual"
abbreviation "Token_LessThanOrEqual \<equiv> Token_RelationalOperator LessThanOrEqual"
abbreviation "Token_GreaterThanOrEqual \<equiv> Token_RelationalOperator GreaterThanOrEqual"
abbreviation "Token_LessThan \<equiv> Token_RelationalOperator LessThan"
abbreviation "Token_GreaterThan \<equiv> Token_RelationalOperator GreaterThan"

subsection \<open>Errors\<close>

text \<open>
  Modelled from the spec: \<open>errors.ts\<close> is not under src/.
  The members of \<open>Errors\<close> that the modelled functions throw, each with the parameters
  given to \<open>createError\<close>. \<open>tokenDesc(this.token)\<close> is kept as the token.
\<close>

datatype Errors =
    Errors_Unexpected
  | Errors_UnexpectedToken Token
  | Errors_UnterminatedComment
  | Errors_UnterminatedString
  | Errors_UnterminatedRegExp
  | Errors_UnterminatedTemplate
  | Errors_UnexpectedTokenRegExpFlag
  | Errors_DuplicateRegExpFlag jsstring
  | Errors_InvalidEscapedReservedWord
  | Errors_StrictOctalEscape
  | Errors_StrictOctalLiteral
  | Errors_InvalidEightAndNine
  | Errors_InvalidBinaryDigit
  | Errors_ExpectedHexDigits
  | Errors_InvalidHexEscapeSequence
  | Errors_InvalidUnicodeEscapeSequence
  | Errors_UnicodeOutOfRange
  | Errors_InvalidLHSInForIn
  | Errors_InvalidLHSInAssignment
  | Errors_DuplicateIdentifier jsstring

text \<open>
  What a function throws: an error made by \<open>this.error\<close>, or the TypeError of the
  JavaScript runtime.
\<close>

datatype thrown = ParseError Errors | TypeError

subsection \<open>Scope maps\<close>

text \<open>
  A scope map is a JavaScript object made by \<open>Object.create\<close>: its own properties
  and its prototype. The objects live in a store, because \<open>blockScope\<close>,
  \<open>parentScope\<close> and \<open>functionScope\<close> may hold the same object and because an
  object is written after other objects were chained to it.
\<close>

record ScopeObject =
  props :: "jsstring \<rightharpoonup> ScopeMasks"
  prototype :: "nat option"

record Scopes =
  heap :: "nat \<Rightarrow> ScopeObject"
  fresh :: nat
  blockScope :: "nat option"
  parentScope :: "nat option"
  functionScope :: "nat option"

section \<open>Scope and binding validator\<close>

text \<open>
  Property read \<open>obj[name]\<close> through the prototype chain. \<open>Object.create\<close> gives
  every new object an address above the one of its prototype, so the chain is followed
  downwards only.
\<close>

function getProp :: "(nat \<Rightarrow> ScopeObject) \<Rightarrow> nat \<Rightarrow> jsstring \<Rightarrow> ScopeMasks option" where
  "getProp h a name =
     (case props (h a) name of
        Some m \<Rightarrow> Some m
      | None \<Rightarrow>
          (case prototype (h a) of
             None \<Rightarrow> None
           | Some p \<Rightarrow> if p < a then getProp h p name else None))"
  by pat_completeness auto
termination
  by (relation "measure (\<lambda>(h, a, name). a)") auto

declare getProp.simps [simp del]


definition setProp :: "(nat \<Rightarrow> ScopeObject) \<Rightarrow> nat \<Rightarrow> jsstring \<Rightarrow> ScopeMasks \<Rightarrow> (nat \<Rightarrow> ScopeObject)" where
  "setProp h a name m = h(a := (h a)\<lparr>props := (props (h a))(name \<mapsto> m)\<rparr>)"

definition objectCreate :: "nat option \<Rightarrow> Scopes \<Rightarrow> nat \<times> Scopes" where
  "objectCreate p s =
     (fresh s,
      s\<lparr>heap := (heap s)(fresh s := \<lparr>props = Map.empty, prototype = p\<rparr>),
        fresh := Suc (fresh s)\<rparr>)"


definition initFunctionScope :: "Scopes \<Rightarrow> bool \<times> Scopes" where
  "initFunctionScope s =
     (if functionScope s \<noteq> None then (False, s)
      else
        (let (f, s1) = objectCreate None s;
             s2 = s1\<lparr>functionScope := Some f\<rparr>;
             s3 = s2\<lparr>blockScope := functionScope s2\<rparr>
         in (True, s3\<lparr>parentScope := functionScope s3\<rparr>)))"

text \<open>
  \<open>addVarName\<close>. After \<open>initFunctionScope\<close> the field \<open>functionScope\<close> always holds
  an object, so the final write cannot fail.
\<close>

definition addVarName :: "jsstring \<Rightarrow> Scopes \<Rightarrow> thrown + Scopes" where
  "addVarName name s =
     (let (created, s1) = initFunctionScope s in
      if \<not> created \<and> blockScope s1 \<noteq> None \<and>
         getProp (heap s1) (the (blockScope s1)) name = Some NonShadowable
      then Inl (ParseError (Errors_DuplicateIdentifier name))
      else
        (case functionScope s1 of
           None \<Rightarrow> Inl TypeError
         | Some f \<Rightarrow> Inr (s1\<lparr>heap := setProp (heap s1) f name Shadowable\<rparr>)))"



text \<open>
  The test of \<open>addVarName\<close>: a function scope exists, a block scope exists, and reading
  the name from the block scope through its prototype chain gives \<open>NonShadowable\<close>.
\<close>

abbreviation lexicalClash :: "jsstring \<Rightarrow> Scopes \<Rightarrow> bool" where
  "lexicalClash name s \<equiv>
     functionScope s \<noteq> None \<and>
     (\<exists>b. blockScope s = Some b \<and> getProp (heap s) b name = Some NonShadowable)"





section \<open>Character reader\<close>

subsection \<open>The code units of \<open>chars.ts\<close>\<close>

text \<open>
  Modelled from the spec: \<open>chars.ts\<close> is not under src/; each name of \<open>Chars\<close> that
  the modelled functions use is the UTF-16 code unit of the character it names.
\<close>

abbreviation "Chars_Tab \<equiv> (9::int)"
abbreviation "Chars_LineFeed \<equiv> (10::int)"
abbreviation "Chars_VerticalTab \<equiv> (11::int)"
abbreviation "Chars_FormFeed \<equiv> (12::int)"
abbreviation "Chars_CarriageReturn \<equiv> (13::int)"
abbreviation "Chars_Space \<equiv> (32::int)"
abbreviation "Chars_Exclamation \<equiv> (33::int)"
abbreviation "Chars_DoubleQuote \<equiv> (34::int)"
abbreviation "Chars_Hash \<equiv> (35::int)"
abbreviation "Chars_Dollar \<equiv> (36::int)"
abbreviation "Chars_Percent \<equiv> (37::int)"
abbreviation "Chars_Ampersand \<equiv> (38::int)"
abbreviation "Chars_SingleQuote \<equiv> (39::int)"
abbreviation "Chars_LeftParen \<equiv> (40::int)"
abbreviation "Chars_RightParen \<equiv> (41::int)"
abbreviation "Chars_Asterisk \<equiv> (42::int)"
abbreviation "Chars_Plus \<equiv> (43::int)"
abbreviation "Chars_Comma \<equiv> (44::int)"
abbreviation "Chars_Hyphen \<equiv> (45::int)"
abbreviation "Chars_Period \<equiv> (46::int)"
abbreviation "Chars_Slash \<equiv> (47::int)"
abbreviation "Chars_Zero \<equiv> (48::int)"
abbreviation "Chars_One \<equiv> (49::int)"
abbreviation "Chars_Three \<equiv> (51::int)"
abbreviation "Chars_Four \<equiv> (52::int)"
abbreviation "Chars_Seven \<equiv> (55::int)"
abbreviation "Chars_Eight \<equiv> (56::int)"
abbreviation "Chars_Nine \<equiv> (57::int)"
abbreviation "Chars_Colon \<equiv> (58::int)"
abbreviation "Chars_Semicolon \<equiv> (59::int)"
abbreviation "Chars_LessThan \<equiv> (60::int)"
abbreviation "Chars_EqualSign \<equiv> (61::int)"
abbreviation "Chars_GreaterThan \<equiv> (62::int)"
abbreviation "Chars_QuestionMark \<equiv> (63::int)"
abbreviation "Chars_UpperA \<equiv> (65::int)"
abbreviation "Chars_UpperB \<equiv> (66::int)"
abbreviation "Chars_UpperE \<equiv> (69::int)"
abbreviation "Chars_UpperF \<equiv> (70::int)"
abbreviation "Chars_UpperO \<equiv> (79::int)"
abbreviation "Chars_UpperU \<equiv> (85::int)"
abbreviation "Chars_UpperX \<equiv> (88::int)"
abbreviation "Chars_UpperZ \<equiv> (90::int)"
abbreviation "Chars_LeftBracket \<equiv> (91::int)"
abbreviation "Chars_Backslash \<equiv> (92::int)"
abbreviation "Chars_RightBracket \<equiv> (93::int)"
abbreviation "Chars_Caret \<equiv> (94::int)"
abbreviation "Chars_Underscore \<equiv> (95::int)"
abbreviation "Chars_Backtick \<equiv> (96::int)"
abbreviation "Chars_LowerA \<equiv> (97::int)"
abbreviation "Chars_LowerB \<equiv> (98::int)"
abbreviation "Chars_LowerE \<equiv> (101::int)"
abbreviation "Chars_LowerF \<equiv> (102::int)"
abbreviation "Chars_LowerG \<equiv> (103::int)"
abbreviation "Chars_LowerI \<equiv> (105::int)"
abbreviation "Chars_LowerM \<equiv> (109::int)"
abbreviation "Chars_LowerN \<equiv> (110::int)"
abbreviation "Chars_LowerO \<equiv> (111::int)"
abbreviation "Chars_LowerR \<equiv> (114::int)"
abbreviation "Chars_LowerS \<equiv> (115::int)"
abbreviation "Chars_LowerT \<equiv> (116::int)"
abbreviation "Chars_LowerU \<equiv> (117::int)"
abbreviation "Chars_LowerV \<equiv> (118::int)"
abbreviation "Chars_LowerX \<equiv> (120::int)"
abbreviation "Chars_LowerY \<equiv> (121::int)"
abbreviation "Chars_LowerZ \<equiv> (122::int)"
abbreviation "Chars_LeftBrace \<equiv> (123::int)"
abbreviation "Chars_VerticalBar \<equiv> (124::int)"
abbreviation "Chars_RightBrace \<equiv> (125::int)"
abbreviation "Chars_Tilde \<equiv> (126::int)"
abbreviation "Chars_NonBreakingSpace \<equiv> (160::int)"
abbreviation "Chars_Ogham \<equiv> (5760::int)"
abbreviation "Chars_EnQuad \<equiv> (8192::int)"
abbreviation "Chars_HairSpace \<equiv> (8202::int)"
abbreviation "Chars_LineSeparator \<equiv> (8232::int)"
abbreviation "Chars_ParagraphSeparator \<equiv> (8233::int)"
abbreviation "Chars_NarrowNoBreakSpace \<equiv> (8239::int)"
abbreviation "Chars_MathematicalSpace \<equiv> (8287::int)"
abbreviation "Chars_IdeographicSpace \<equiv> (12288::int)"
abbreviation "Chars_ZeroWidthNoBreakSpace \<equiv> (65279::int)"
abbreviation "Chars_LastUnicodeChar \<equiv> (1114111::int)"

subsection \<open>Numbers that may be \<open>NaN\<close>\<close>

text \<open>
  A number read by \<open>charCodeAt\<close> is \<open>None\<close> when it is \<open>NaN\<close>. Every comparison
  with \<open>NaN\<close> is false, and \<open>!==\<close> with \<open>NaN\<close> is true.
\<close>

type_synonym code = "int option"

definition js_lt :: "code \<Rightarrow> int \<Rightarrow> bool" where
  "js_lt ch k = (case ch of None \<Rightarrow> False | Some c \<Rightarrow> c < k)"

definition js_le :: "code \<Rightarrow> int \<Rightarrow> bool" where
  "js_le ch k = (case ch of None \<Rightarrow> False | Some c \<Rightarrow> c \<le> k)"

definition js_gt :: "code \<Rightarrow> int \<Rightarrow> bool" where
  "js_gt ch k = (case ch of None \<Rightarrow> False | Some c \<Rightarrow> k < c)"

definition js_ge :: "code \<Rightarrow> int \<Rightarrow> bool" where
  "js_ge ch k = (case ch of None \<Rightarrow> False | Some c \<Rightarrow> k \<le> c)"

text \<open>The 32-bit integer that the bitwise operators of JavaScript compute with.\<close>

definition int32 :: "int \<Rightarrow> int" where
  "int32 x = signed_take_bit 31 x"

definition shl_or :: "int \<Rightarrow> nat \<Rightarrow> int \<Rightarrow> int" where
  \<comment> \<open>\<open>code << n | digit\<close>\<close>
  "shl_or code n digit = int32 (or (push_bit n (int32 code)) (int32 digit))"

subsection \<open>String methods\<close>

definition charCodeAt :: "jsstring \<Rightarrow> int \<Rightarrow> code" where
  "charCodeAt str i =
     (if 0 \<le> i \<and> i < int (length str) then Some (int (str ! nat i)) else None)"

definition slice :: "jsstring \<Rightarrow> int \<Rightarrow> int \<Rightarrow> jsstring" where
  \<comment> \<open>\<open>str.slice(from, to)\<close>: a negative position counts from the end\<close>
  "slice str from to =
     (let n = int (length str);
          a = (if from < 0 then max (n + from) 0 else min from n);
          b = (if to < 0 then max (n + to) 0 else min to n)
      in take (nat (b - a)) (drop (nat a) str))"

definition substring :: "jsstring \<Rightarrow> int \<Rightarrow> int \<Rightarrow> jsstring" where
  \<comment> \<open>\<open>str.substring(from, to)\<close>: positions are clamped, and swapped when out of order\<close>
  "substring str from to =
     (let n = int (length str);
          a = max 0 (min from n);
          b = max 0 (min to n)
      in take (nat (max a b - min a b)) (drop (nat (min a b)) str))"

definition charAt :: "jsstring \<Rightarrow> code \<Rightarrow> jsstring" where
  \<comment> \<open>\<open>str.charAt(pos)\<close>: \<open>NaN\<close> is position 0; the empty string outside\<close>
  "charAt str pos =
     (let i = (case pos of None \<Rightarrow> 0 | Some p \<Rightarrow> p)
      in if 0 \<le> i \<and> i < int (length str) then [str ! nat i] else [])"

definition fromCharCode :: "int \<Rightarrow> jsstring" where
  \<comment> \<open>\<open>String.fromCharCode(code)\<close> keeps the low 16 bits\<close>
  "fromCharCode c = [nat (c mod 65536)]"

subsection \<open>Values of literals\<close>

text \<open>
  A number is an integer known exactly, or the result of \<open>parseFloat\<close> on a string (an
  IEEE-754 double that is not computed here).
\<close>

datatype Number = Exact int | ParseFloatOf jsstring

text \<open>
  \<open>RegExpValue pattern flags\<close> is what \<open>tryCreate(pattern, flags)\<close> returns: the host's
  regular expression, or \<open>null\<close> when the host refuses it.
\<close>

datatype Value =
    Undefined
  | StringValue jsstring
  | NumberValue Number
  | RegExpValue jsstring jsstring

fun decimalValue :: "int \<Rightarrow> jsstring \<Rightarrow> int" where
  "decimalValue acc [] = acc"
| "decimalValue acc (d # ds) = decimalValue (acc * 10 + (int d - 48)) ds"

definition isDecimalDigit :: "nat \<Rightarrow> bool" where
  "isDecimalDigit c = (48 \<le> c \<and> c \<le> 57)"

text \<open>
  \<open>parseFloat\<close> of the host reads the longest prefix of the string that is a decimal
  literal. Where the string starts with digits that are followed by neither a period nor an
  exponent mark, and their value is below \<open>2 ^ 53\<close>, the result is that integer exactly;
  every other result is left as \<open>ParseFloatOf\<close>.
\<close>

definition parseFloat :: "jsstring \<Rightarrow> Number" where
  "parseFloat str =
     (let ds = takeWhile isDecimalDigit str;
          rest = dropWhile isDecimalDigit str
      in if ds \<noteq> [] \<and>
            (case rest of [] \<Rightarrow> True | c # cs \<Rightarrow> c \<noteq> 46 \<and> c \<noteq> 101 \<and> c \<noteq> 69) \<and>
            decimalValue 0 ds < 2 ^ 53
         then Exact (decimalValue 0 ds)
         else ParseFloatOf str)"

subsection \<open>Imported functions whose tables are not part of the parser\<close>

text \<open>
  The Unicode tables of \<open>unicode.ts\<close>, the keyword table and the token flags of
  \<open>token.ts\<close>, and \<open>fromCodePoint\<close> of \<open>common.ts\<close> are parameters of the model.
  The character predicates take the number they are called with, which may be \<open>NaN\<close>.
\<close>

record Imports =
  isIdentifierPart :: "code \<Rightarrow> bool"
  isValidIdentifierStart :: "code \<Rightarrow> bool"
  fromCodePoint :: "int \<Rightarrow> jsstring"
  descKeyword :: "jsstring \<Rightarrow> Token option"
  hasBindingPatternMask :: "Token \<Rightarrow> bool"

definition isDigit :: "code \<Rightarrow> bool" where
  \<comment> \<open>Modelled from the spec: \<open>isDigit\<close> of \<open>common.ts\<close> is not under src/; a decimal
      digit \<open>0\<close> to \<open>9\<close>\<close>
  "isDigit ch = (js_ge ch Chars_Zero \<and> js_le ch Chars_Nine)"

definition toHex :: "code \<Rightarrow> int" where
  \<comment> \<open>Modelled from the spec: \<open>toHex\<close> of \<open>common.ts\<close> is not under src/; the value of a
      hexadecimal digit, and \<open>-1\<close> for any other code\<close>
  "toHex ch =
     (case ch of
        None \<Rightarrow> - 1
      | Some c \<Rightarrow>
          if Chars_Zero \<le> c \<and> c \<le> Chars_Nine then c - Chars_Zero
          else if Chars_UpperA \<le> c \<and> c \<le> Chars_UpperF then c - Chars_UpperA + 10
          else if Chars_LowerA \<le> c \<and> c \<le> Chars_LowerF then c - Chars_LowerA + 10
          else - 1)"

subsection \<open>The parser object\<close>

datatype CommentType = SingleLineComment | MultiLineComment

type_synonym Comment = "CommentType \<times> jsstring \<times> int \<times> int"

text \<open>
  The fields of class \<open>Parser\<close>. The three scope fields are in \<open>scopes\<close>, with the store
  of the scope objects. \<open>comments\<close> is the sink given in the options (\<open>None\<close> when
  there is none); what the sink receives is appended to it.
\<close>

record Parser =
  source :: jsstring
  index :: int
  column :: int
  line :: int
  flags :: "Flags set"
  tokenValue :: Value
  token :: Token
  startPos :: int
  startColumn :: int
  startLine :: int
  endPos :: int
  endColumn :: int
  endLine :: int
  tokenRaw :: jsstring
  labelSet :: "jsstring set"
  scopes :: Scopes
  errorLocation :: "(int \<times> int \<times> int) option"
  comments :: "Comment list option"
  tokenRegExp :: "(jsstring \<times> jsstring) option"


definition error :: "Errors \<Rightarrow> thrown + 'a" where
  "error e = Inl (ParseError e)"

definition hasNext :: "Parser \<Rightarrow> bool" where
  "hasNext s = (index s < int (length (source s)))"

definition nextChar :: "Parser \<Rightarrow> code" where
  "nextChar s = charCodeAt (source s) (index s)"

definition advance :: "Parser \<Rightarrow> Parser" where
  "advance s = s\<lparr>index := index s + 1, column := column s + 1\<rparr>"

definition advanceTwice :: "Parser \<Rightarrow> Parser" where
  "advanceTwice s = s\<lparr>index := index s + 2, column := column s + 2\<rparr>"

definition advanceNewline :: "Parser \<Rightarrow> Parser" where
  "advanceNewline s =
     s\<lparr>flags := insert Flags_LineTerminator (flags s), index := index s + 1,
       column := 0, line := line s + 1\<rparr>"

definition consume :: "int \<Rightarrow> Parser \<Rightarrow> bool \<times> Parser" where
  "consume c s = (if nextChar s \<noteq> Some c then (False, s) else (True, advance s))"

text \<open>
  \<open>nextUnicodeChar\<close> reads \<open>hi\<close> and \<open>lo\<close> at the same index. The bitwise operators
  take \<open>NaN\<close> as 0.
\<close>

definition nextUnicodeChar :: "Parser \<Rightarrow> code \<times> Parser" where
  "nextUnicodeChar s =
     (let s1 = advance s;
          hi = nextChar s1
      in if js_lt hi 55296 \<or> js_gt hi 56319 then (hi, s1)
         else if index s1 = int (length (source s1)) then (hi, s1)
         else
           (let lo = nextChar s1
            in if js_lt lo 56320 \<or> js_gt lo 57343 then (hi, s1)
               else
                 (let h = (case hi of None \<Rightarrow> 0 | Some c \<Rightarrow> c);
                      l = (case lo of None \<Rightarrow> 0 | Some c \<Rightarrow> c)
                  in (Some (int32 (or (or (push_bit 10 (and h 1023)) (and l 1023)) 65536)),
                      s1))))"

subsection \<open>The constructor\<close>

record Options =
  opt_next :: bool
  opt_comments :: "Comment list option"
  opt_jsx :: bool
  opt_locations :: bool
  opt_ranges :: bool
  opt_raw :: bool
  opt_v8 :: bool

definition emptyScopes :: Scopes where
  "emptyScopes =
     \<lparr>heap = (\<lambda>a. \<lparr>props = Map.empty, prototype = None\<rparr>), fresh = 0,
      blockScope = None, parentScope = None, functionScope = None\<rparr>"

text \<open>
  \<open>new Parser(source, options)\<close>. The constructor sets \<open>token\<close> to 0, before any token
  is scanned; \<open>Token_EndOfSource\<close> stands for it.
\<close>

definition newParser :: "jsstring \<Rightarrow> Options \<Rightarrow> Parser" where
  "newParser src options =
     \<lparr>source = src, index = 0, column = 0, line = 1,
      flags =
        (if opt_next options then {Flags_OptionsNext} else {}) \<union>
        (if opt_comments options \<noteq> None then {Flags_OptionsOnComment} else {}) \<union>
        (if opt_jsx options then {Flags_OptionsJSX} else {}) \<union>
        (if opt_locations options then {Flags_OptionsLoc} else {}) \<union>
        (if opt_ranges options then {Flags_OptionsRanges} else {}) \<union>
        (if opt_raw options then {Flags_OptionsRaw} else {}) \<union>
        (if opt_v8 options then {Flags_OptionsV8} else {}),
      tokenValue = Undefined, token = Token_EndOfSource,
      startPos = 0, startColumn = 0, startLine = 0,
      endPos = 0, endColumn = 0, endLine = 0,
      tokenRaw = [], labelSet = {}, scopes = emptyScopes,
      errorLocation = None, comments = opt_comments options, tokenRegExp = None\<rparr>"

definition noOptions :: Options where
  "noOptions =
     \<lparr>opt_next = False, opt_comments = None, opt_jsx = False, opt_locations = False,
      opt_ranges = False, opt_raw = False, opt_v8 = False\<rparr>"

section \<open>Lexer: numeric literals\<close>

definition setRaw :: "int \<Rightarrow> Parser \<Rightarrow> Parser" where
  \<comment> \<open>\<open>if (this.flags & Flags.OptionsRaw) this.tokenRaw = this.source.slice(from, this.index)\<close>\<close>
  "setRaw from s =
     (if Flags_OptionsRaw \<in> flags s then s\<lparr>tokenRaw := slice (source s) from (index s)\<rparr>
      else s)"

definition scanBigInt :: "Parser \<Rightarrow> Token \<times> Parser" where
  "scanBigInt s = (Token_BigIntLiteral, setRaw (startPos s) (advance s))"

function skipDigits :: "Parser \<Rightarrow> Parser" where
  "skipDigits s =
     (if hasNext s \<and> js_ge (nextChar s) Chars_Zero \<and> js_le (nextChar s) Chars_Nine
      then skipDigits (advance s) else s)"
  by pat_completeness auto
termination
  by (relation "measure (\<lambda>s. nat (int (length (source s)) - index s))")
     (auto simp: hasNext_def advance_def)

declare skipDigits.simps [simp del]

text \<open>
  The loop of \<open>scanNumberLiteral\<close>; it returns the state, \<open>code\<close> and the last \<open>ch\<close>.
\<close>

function scanNumberLiteral_loop :: "Parser \<Rightarrow> int \<Rightarrow> code \<Rightarrow> Parser \<times> int \<times> code" where
  "scanNumberLiteral_loop s c ch =
     (if hasNext s then
        (let ch1 = nextChar s in
         if \<not> isDigit ch1 then (s, c, ch1)
         else scanNumberLiteral_loop (advance s) (c * 8 + (the ch1 - 48)) ch1)
      else (s, c, ch))"
  by pat_completeness auto
termination
  by (relation "measure (\<lambda>(s, c, ch). nat (int (length (source s)) - index s))")
     (auto simp: hasNext_def advance_def)

declare scanNumberLiteral_loop.simps [simp del]

definition scanNumberLiteral :: "Context set \<Rightarrow> Parser \<Rightarrow> thrown + (Token \<times> Parser)" where
  "scanNumberLiteral context s =
     (if Context_Strict \<in> context then error Errors_StrictOctalEscape
      else
        (let s1 = advance s;
             ch = nextChar s1;
             after = charCodeAt (source s1) (index s1 + 1)
         in if after = Some Chars_LowerB \<or> after = Some Chars_UpperB \<or>
               after = Some Chars_LowerO \<or> after = Some Chars_UpperO
            then error Errors_Unexpected
            else
              (let (s2, c, ch2) = scanNumberLiteral_loop s1 0 ch;
                   s3 = s2\<lparr>tokenValue := NumberValue (Exact c)\<rparr>
               in if Flags_OptionsNext \<in> flags s3 \<and> ch2 = Some Chars_LowerN
                  then Inr (scanBigInt s3)
                  else Inr (Token_NumericLiteral, setRaw (startPos s3) s3))))"

function scanOctalDigits_loop :: "Parser \<Rightarrow> int \<Rightarrow> code \<Rightarrow> thrown + (Parser \<times> int \<times> code)" where
  "scanOctalDigits_loop s c ch =
     (if hasNext s then
        (let ch1 = nextChar s in
         if \<not> isDigit ch1 then Inr (s, c, ch1)
         else if js_lt ch1 Chars_Zero \<or> js_ge ch1 Chars_Eight
         then error Errors_InvalidBinaryDigit
         else scanOctalDigits_loop (advance s) (shl_or c 3 (the ch1 - Chars_Zero)) ch1)
      else Inr (s, c, ch))"
  by pat_completeness auto
termination
  by (relation "measure (\<lambda>(s, c, ch). nat (int (length (source s)) - index s))")
     (auto simp: hasNext_def advance_def)

declare scanOctalDigits_loop.simps [simp del]

definition scanOctalDigits :: "Context set \<Rightarrow> Parser \<Rightarrow> thrown + (Token \<times> Parser)" where
  "scanOctalDigits context s =
     (if Context_Strict \<in> context then error Errors_StrictOctalEscape
      else
        (let s1 = advanceTwice s in
         if \<not> hasNext s1 then error Errors_InvalidBinaryDigit
         else
           (let ch = nextChar s1 in
            if js_lt ch Chars_Zero \<or> js_ge ch Chars_Eight then error Errors_InvalidBinaryDigit
            else
              (case scanOctalDigits_loop (advance s1) (the ch - Chars_Zero) ch of
                 Inl e \<Rightarrow> Inl e
               | Inr (s2, c, ch2) \<Rightarrow>
                   (let s3 = s2\<lparr>tokenValue := NumberValue (Exact c)\<rparr>
                    in if Flags_OptionsNext \<in> flags s3 \<and> ch2 = Some Chars_LowerN
                       then Inr (scanBigInt s3)
                       else Inr (Token_NumericLiteral, setRaw (startPos s3) s3))))))"

function scanHexadecimalDigit_loop :: "Parser \<Rightarrow> int \<Rightarrow> code \<Rightarrow> Parser \<times> int \<times> code" where
  "scanHexadecimalDigit_loop s c ch =
     (if hasNext s then
        (let ch1 = nextChar s;
             digit = toHex ch1
         in if digit < 0 then (s, c, ch1)
            else scanHexadecimalDigit_loop (advance s) (shl_or c 4 digit) ch1)
      else (s, c, ch))"
  by pat_completeness auto
termination
  by (relation "measure (\<lambda>(s, c, ch). nat (int (length (source s)) - index s))")
     (auto simp: hasNext_def advance_def)

declare scanHexadecimalDigit_loop.simps [simp del]

definition scanHexadecimalDigit :: "Parser \<Rightarrow> thrown + (Token \<times> Parser)" where
  "scanHexadecimalDigit s =
     (let s1 = advanceTwice s in
      if \<not> hasNext s1 then error Errors_ExpectedHexDigits
      else
        (let ch = nextChar s1;
             c = toHex ch
         in if c < 0 then error Errors_InvalidHexEscapeSequence
            else
              (let (s2, c2, ch2) = scanHexadecimalDigit_loop (advance s1) c ch;
                   s3 = s2\<lparr>tokenValue := NumberValue (Exact c2)\<rparr>
               in if Flags_OptionsNext \<in> flags s3 \<and> ch2 = Some Chars_LowerN
                  then Inr (scanBigInt s3)
                  else Inr (Token_NumericLiteral, setRaw (startPos s3) s3))))"

function scanBinaryDigits_loop :: "Parser \<Rightarrow> int \<Rightarrow> code \<Rightarrow> thrown + (Parser \<times> int \<times> code)" where
  "scanBinaryDigits_loop s c ch =
     (if hasNext s then
        (let ch1 = nextChar s in
         if \<not> isDigit ch1 then Inr (s, c, ch1)
         else if \<not> (ch1 = Some Chars_Zero \<or> ch1 = Some Chars_One)
         then error Errors_InvalidBinaryDigit
         else scanBinaryDigits_loop (advance s) (shl_or c 1 (the ch1 - Chars_Zero)) ch1)
      else Inr (s, c, ch))"
  by pat_completeness auto
termination
  by (relation "measure (\<lambda>(s, c, ch). nat (int (length (source s)) - index s))")
     (auto simp: hasNext_def advance_def)

declare scanBinaryDigits_loop.simps [simp del]

definition scanBinaryDigits :: "Context set \<Rightarrow> Parser \<Rightarrow> thrown + (Token \<times> Parser)" where
  "scanBinaryDigits context s =
     (let s1 = advanceTwice s;
          ch = nextChar s1
      in if ch \<noteq> Some Chars_Zero \<and> ch \<noteq> Some Chars_One then error Errors_InvalidBinaryDigit
         else
           (case scanBinaryDigits_loop (advance s1) (the ch - Chars_Zero) ch of
              Inl e \<Rightarrow> Inl e
            | Inr (s2, c, ch2) \<Rightarrow>
                (let s3 = s2\<lparr>tokenValue := NumberValue (Exact c)\<rparr>
                 in if Flags_OptionsNext \<in> flags s3 \<and> ch2 = Some Chars_LowerN
                    then Inr (scanBigInt s3)
                    else Inr (Token_NumericLiteral, setRaw (startPos s3) s3))))"

text \<open>
  \<open>scanNumber\<close>. The case of \<open>n\<close> has no \<open>break\<close>: with or without the \<open>next\<close> option
  it runs on into the case of the exponent mark. In the inner switch the case of the sign
  runs on into the case of the digits. \<open>end\<close> is set before the switch and again only
  after exponent digits.
\<close>

definition scanNumber :: "Context set \<Rightarrow> int \<Rightarrow> Parser \<Rightarrow> thrown + (Token \<times> Parser)" where
  "scanNumber context ch s =
     (let start = index s;
          s1 = skipDigits s;
          (state1, s2) =
            (if nextChar s1 = Some Chars_Period
             then ({NumberState_Float}, skipDigits (advance s1))
             else ({}, s1));
          end1 = index s2;
          c = nextChar s2
      in if c = Some Chars_LowerN \<and> Flags_OptionsNext \<in> flags s2 \<and> NumberState_Float \<in> state1
         then error Errors_Unexpected
         else
           (let (state2, s3) =
                  (if c = Some Chars_LowerN \<and> Flags_OptionsNext \<in> flags s2
                   then (insert NumberState_BigInt state1, advance s2)
                   else (state1, s2));
                (state3, s4, end2) =
                  (if c = Some Chars_LowerN \<or> c = Some Chars_UpperE \<or> c = Some Chars_LowerE then
                     (let s5 = advance s3;
                          st = insert NumberState_Float state2;
                          c2 = nextChar s5
                      in if c2 = Some Chars_Plus \<or> c2 = Some Chars_Hyphen then
                           (let s6 = skipDigits (advance (advance s5)) in (st, s6, index s6))
                         else if js_ge c2 Chars_Zero \<and> js_le c2 Chars_Nine then
                           (let s6 = skipDigits (advance s5) in (st, s6, index s6))
                         else (st, s5, end1))
                   else (state2, s3, end1));
                s7 = (if Flags_OptionsRaw \<in> flags s4
                      then s4\<lparr>tokenRaw := substring (source s4) start end2\<rparr> else s4);
                s8 = s7\<lparr>tokenValue := NumberValue (parseFloat (substring (source s7) start end2))\<rparr>
            in if NumberState_BigInt \<in> state3 then Inr (Token_BigIntLiteral, s8)
               else Inr (Token_NumericLiteral, s8)))"

section \<open>Lexer: escapes and string literals\<close>

text \<open>
  The loop of \<open>peekExtendedUnicodeEscape\<close> for \<open>\u{...}\<close>: \<open>ch\<close> is the code at the
  current index.
\<close>

function peekExtendedUnicodeEscape_loop :: "Parser \<Rightarrow> int \<Rightarrow> code \<Rightarrow> thrown + (int \<times> Parser)" where
  "peekExtendedUnicodeEscape_loop s c ch =
     (if ch = Some Chars_RightBrace then Inr (c, s)
      else
        (let digit = toHex ch in
         if digit < 0 then error Errors_InvalidHexEscapeSequence
         else
           (let c1 = shl_or c 4 digit in
            if c1 > Chars_LastUnicodeChar then error Errors_UnicodeOutOfRange
            else
              (let s1 = advance s in
               if \<not> hasNext s1 then error Errors_InvalidHexEscapeSequence
               else peekExtendedUnicodeEscape_loop s1 c1 (nextChar s1)))))"
  by pat_completeness auto
termination
  by (relation "measure (\<lambda>(s, c, ch). nat (int (length (source s)) - index s))")
     (auto simp: hasNext_def advance_def)

declare peekExtendedUnicodeEscape_loop.simps [simp del]

text \<open>
  One round of the \<open>for\<close> loop for \<open>\uDDDD\<close>. The source tests \<open>code < 0\<close> where the
  digit was just read, so a last digit that is no hexadecimal digit is not refused.
\<close>

definition peekExtendedUnicodeEscape_round ::
    "Parser \<times> int \<times> code \<Rightarrow> thrown + (Parser \<times> int \<times> code)" where
  "peekExtendedUnicodeEscape_round x =
     (case x of (s, c, ch0) \<Rightarrow>
        (let s1 = advance s in
         if \<not> hasNext s1 then error Errors_InvalidHexEscapeSequence
         else
           (let ch = nextChar s1;
                digit = toHex ch
            in if c < 0 then error Errors_InvalidHexEscapeSequence
               else Inr (s1, shl_or c 4 digit, ch))))"

definition peekExtendedUnicodeEscape :: "Parser \<Rightarrow> thrown + (int \<times> Parser)" where
  "peekExtendedUnicodeEscape s =
     (let s1 = advance s in
      if \<not> hasNext s1 then error Errors_InvalidHexEscapeSequence
      else
        (let ch = nextChar s1 in
         if ch = Some Chars_LeftBrace then
           (let s2 = advance s1 in
            if \<not> hasNext s2 then error Errors_InvalidHexEscapeSequence
            else if nextChar s2 = Some Chars_RightBrace
            then error Errors_InvalidHexEscapeSequence
            else peekExtendedUnicodeEscape_loop s2 0 (nextChar s2))
         else if index s1 + 3 < int (length (source s1)) then
           (let c = toHex ch in
            if c < 0 then error Errors_InvalidHexEscapeSequence
            else
              (case peekExtendedUnicodeEscape_round (s1, c, ch) of
                 Inl e \<Rightarrow> Inl e
               | Inr x1 \<Rightarrow>
                   (case peekExtendedUnicodeEscape_round x1 of
                      Inl e \<Rightarrow> Inl e
                    | Inr x2 \<Rightarrow>
                        (case peekExtendedUnicodeEscape_round x2 of
                           Inl e \<Rightarrow> Inl e
                         | Inr (s4, c4, ch4) \<Rightarrow>
                             if ch4 = Some Chars_LowerU \<or> ch4 = Some Chars_UpperU
                             then error Errors_InvalidHexEscapeSequence
                             else Inr (c4, s4)))))
         else error Errors_InvalidUnicodeEscapeSequence))"

text \<open>
  \<open>scanStringEscape\<close> returns the string of the escape. \<open>if (!this.hasNext)\<close> tests
  the method itself, which is never false, so nothing is thrown there. In the case of a
  carriage return \<open>nextChar\<close> is that carriage return. The default case reads
  \<open>this.source.charAt(cp)\<close>, the character at the position \<open>cp\<close>.
\<close>

definition scanStringEscape :: "Imports \<Rightarrow> Context set \<Rightarrow> Parser \<Rightarrow> thrown + (jsstring \<times> Parser)" where
  "scanStringEscape imp context s0 =
     (let s = advance s0;
          cp = nextChar s
      in if cp = Some Chars_LowerB then Inr ([8], s)
         else if cp = Some Chars_LowerT then Inr ([9], s)
         else if cp = Some Chars_LowerN then Inr ([10], s)
         else if cp = Some Chars_LowerV then Inr ([11], s)
         else if cp = Some Chars_LowerF then Inr ([12], s)
         else if cp = Some Chars_LowerR then Inr ([13], s)
         else if cp = Some Chars_Backslash then Inr ([92], s)
         else if cp = Some Chars_SingleQuote then Inr ([39], s)
         else if cp = Some Chars_DoubleQuote then Inr ([34], s)
         else if cp = Some Chars_LowerU then
           (case peekExtendedUnicodeEscape s of
              Inl e \<Rightarrow> Inl e
            | Inr (c, s1) \<Rightarrow> Inr (fromCodePoint imp c, s1))
         else if cp = Some Chars_LowerX then
           (let s1 = advance s in
            if \<not> hasNext s1 then error Errors_UnterminatedString
            else
              (let hi = toHex (nextChar s1) in
               if hi < 0 then error Errors_InvalidHexEscapeSequence
               else
                 (let s2 = advance s1 in
                  if \<not> hasNext s2 then error Errors_UnterminatedString
                  else
                    (let lo = toHex (nextChar s2) in
                     if lo < 0 then error Errors_InvalidHexEscapeSequence
                     else Inr (fromCodePoint imp (shl_or hi 4 lo), s2)))))
         else if js_ge cp Chars_Zero \<and> js_le cp Chars_Three then
           (let c = the cp - Chars_Zero;
                i = index s + 1;
                col = column s + 1
            in if i < int (length (source s)) then
                 (let nxt = charCodeAt (source s) i in
                  if js_lt nxt Chars_Zero \<or> js_gt nxt Chars_Seven then
                    (if c \<noteq> 0 \<and> Context_Strict \<in> context
                     then error Errors_StrictOctalLiteral
                     else Inr (fromCharCode c, s))
                  else if Context_Strict \<in> context then error Errors_StrictOctalLiteral
                  else
                    (let c1 = shl_or c 3 ((case nxt of None \<Rightarrow> 0 | Some d \<Rightarrow> d) - Chars_Zero);
                         i1 = i + 1;
                         col1 = col + 1;
                         nxt1 = charCodeAt (source s) i1;
                         more = (i1 < int (length (source s)) \<and>
                                 js_ge nxt1 Chars_Zero \<and> js_le nxt1 Chars_Seven);
                         c2 = (if more then shl_or c1 3 (the nxt1 - Chars_Zero) else c1);
                         i2 = (if more then i1 + 1 else i1);
                         col2 = (if more then col1 + 1 else col1)
                     in Inr (fromCharCode c2, s\<lparr>index := i2 - 1, column := col2 - 1\<rparr>)))
               else Inr (fromCharCode c, s))
         else if js_ge cp Chars_Four \<and> js_le cp Chars_Seven then
           (if Context_Strict \<in> context then error Errors_StrictOctalEscape
            else
              (let c = the cp - Chars_Zero;
                   i = index s + 1;
                   col = column s + 1;
                   nxt = charCodeAt (source s) i
               in if i < int (length (source s)) \<and>
                     js_ge nxt Chars_Zero \<and> js_le nxt Chars_Seven
                  then Inr (fromCharCode (shl_or c 3 (the nxt - Chars_Zero)),
                            s\<lparr>index := i, column := col\<rparr>)
                  else Inr (fromCharCode c, s)))
         else if cp = Some Chars_Eight \<or> cp = Some Chars_Nine
         then error Errors_InvalidEightAndNine
         else if cp = Some Chars_CarriageReturn then
           (let s1 = (if hasNext s \<and> nextChar s = Some Chars_LineFeed then advance s else s)
            in Inr ([], s1\<lparr>column := - 1, line := line s1 + 1\<rparr>))
         else if cp = Some Chars_LineFeed \<or> cp = Some Chars_LineSeparator \<or>
                 cp = Some Chars_ParagraphSeparator
         then Inr ([], s\<lparr>column := - 1, line := line s + 1\<rparr>)
         else Inr (charAt (source s) cp, s))"

text \<open>Every escape scanner moves the index forward and leaves the source as it is.\<close>

lemma peekExtendedUnicodeEscape_loop_index:
  "peekExtendedUnicodeEscape_loop s c ch = Inr (c', s') \<Longrightarrow>
   index s \<le> index s' \<and> source s' = source s"
proof (induction s c ch rule: peekExtendedUnicodeEscape_loop.induct)
  case (1 s c ch)
  from "1.prems" show ?case
    apply (subst (asm) peekExtendedUnicodeEscape_loop.simps)
    apply (simp add: Let_def error_def split: if_splits)
    apply (drule "1.IH"[rotated -1])
    apply (simp_all add: advance_def)
    done
qed

lemma peekExtendedUnicodeEscape_round_index:
  "peekExtendedUnicodeEscape_round (s, c, ch) = Inr (s', c', ch') \<Longrightarrow>
   index s' = index s + 1 \<and> source s' = source s"
  by (auto simp: peekExtendedUnicodeEscape_round_def Let_def error_def advance_def
      split: if_splits)

lemma peekExtendedUnicodeEscape_index:
  assumes "peekExtendedUnicodeEscape s = Inr (c, s')"
  shows "index s < index s' \<and> source s' = source s"
proof -
  define s1 where "s1 = advance s"
  have s1: "index s1 = index s + 1" "source s1 = source s"
    by (simp_all add: s1_def advance_def)
  show ?thesis
  proof (cases "nextChar s1 = Some Chars_LeftBrace")
    case True
    with assms have "peekExtendedUnicodeEscape_loop (advance s1) 0 (nextChar (advance s1))
        = Inr (c, s')"
      by (simp add: peekExtendedUnicodeEscape_def Let_def error_def s1_def split: if_splits)
    from peekExtendedUnicodeEscape_loop_index[OF this] s1 show ?thesis
      by (simp add: advance_def)
  next
    case False
    with assms obtain x1 x2 s4 c4 ch4 where
      r1: "peekExtendedUnicodeEscape_round (s1, toHex (nextChar s1), nextChar s1) = Inr x1" and
      r2: "peekExtendedUnicodeEscape_round x1 = Inr x2" and
      r3: "peekExtendedUnicodeEscape_round x2 = Inr (s4, c4, ch4)" and
      e: "s' = s4"
      by (auto simp: peekExtendedUnicodeEscape_def Let_def error_def s1_def
          split: if_splits sum.splits)
    obtain a1 b1 d1 where x1: "x1 = (a1, b1, d1)" by (cases x1) auto
    obtain a2 b2 d2 where x2: "x2 = (a2, b2, d2)" by (cases x2) auto
    from peekExtendedUnicodeEscape_round_index[OF r1[unfolded x1]]
         peekExtendedUnicodeEscape_round_index[OF r2[unfolded x1 x2]]
         peekExtendedUnicodeEscape_round_index[OF r3[unfolded x2]] s1 e
    show ?thesis by simp
  qed
qed

lemma scanStringEscape_index:
  assumes "scanStringEscape imp context s = Inr (r, s')"
  shows "index s < index s' \<and> source s' = source s"
proof -
  define s1 where "s1 = advance s"
  have s1: "index s1 = index s + 1" "source s1 = source s"
    by (simp_all add: s1_def advance_def)
  show ?thesis
  proof (cases "nextChar s1 = Some Chars_LowerU")
    case True
    with assms obtain c where "peekExtendedUnicodeEscape s1 = Inr (c, s')"
      by (auto simp: scanStringEscape_def Let_def s1_def split: sum.splits)
    from peekExtendedUnicodeEscape_index[OF this] s1 show ?thesis by simp
  next
    case False
    with assms have "index s1 \<le> index s' \<and> source s' = source s1"
      unfolding scanStringEscape_def Let_def s1_def[symmetric]
      by (auto simp: error_def advance_def split: if_splits)
    with s1 show ?thesis by simp
  qed
qed

function scanString_loop ::
    "Imports \<Rightarrow> Context set \<Rightarrow> int \<Rightarrow> Parser \<Rightarrow> jsstring \<Rightarrow> int \<Rightarrow> code \<Rightarrow>
     thrown + (Parser \<times> jsstring \<times> int \<times> code)" where
  "scanString_loop imp context quote s ret start ch =
     (if hasNext s then
        (let ch1 = nextChar s in
         if ch1 = Some quote then Inr (s, ret, start, ch1)
         else if ch1 = Some Chars_Backslash then
           (case scanStringEscape imp context s of
              Inl e \<Rightarrow> Inl e
            | Inr (str, s1) \<Rightarrow>
                scanString_loop imp context quote (advance s1)
                  (ret @ slice (source s) start (index s) @ str) (index (advance s1)) ch1)
         else if ch1 = Some Chars_CarriageReturn \<or> ch1 = Some Chars_LineFeed \<or>
                 ch1 = Some Chars_LineSeparator \<or> ch1 = Some Chars_ParagraphSeparator
         then error Errors_UnterminatedString
         else scanString_loop imp context quote (advance s) ret start ch1)
      else Inr (s, ret, start, ch))"
  by pat_completeness auto
termination
proof (relation "measure (\<lambda>(imp, context, quote, s, ret, start, ch).
                   nat (int (length (source s)) - index s))", goal_cases)
  case 1
  show ?case by simp
next
  case (2 imp cx quote s ret start ch ch1 x str s1)
  then have "scanStringEscape imp cx s = Inr (str, s1)" by simp
  from scanStringEscape_index[OF this] 2 show ?case
    by (simp add: hasNext_def advance_def)
next
  case 3
  then show ?case by (simp add: hasNext_def advance_def)
qed

declare scanString_loop.simps [simp del]

definition scanString :: "Imports \<Rightarrow> Context set \<Rightarrow> int \<Rightarrow> Parser \<Rightarrow> thrown + (Token \<times> Parser)" where
  "scanString imp context quote s =
     (let rawStart = index s;
          s1 = advance s
      in if \<not> hasNext s1 then error Errors_UnterminatedString
         else
           (case scanString_loop imp context quote s1 [] (index s1) None of
              Inl e \<Rightarrow> Inl e
            | Inr (s2, ret, start, ch) \<Rightarrow>
                (let ret1 = (if start \<noteq> index s2
                             then ret @ slice (source s2) start (index s2) else ret)
                 in if ch \<noteq> Some quote then error Errors_UnterminatedString
                    else
                      (let s3 = advance s2;
                           s4 = s3\<lparr>tokenValue := StringValue ret1\<rparr>
                       in Inr (Token_StringLiteral, setRaw rawStart s4)))))"

section \<open>Lexer: comments, identifiers and templates\<close>

definition isLineTerminatorCase :: "code \<Rightarrow> bool" where
  \<comment> \<open>the four \<open>case\<close> labels \<open>LineFeed\<close>, \<open>CarriageReturn\<close>, \<open>LineSeparator\<close>,
      \<open>ParagraphSeparator\<close>\<close>
  "isLineTerminatorCase ch =
     (ch = Some Chars_LineFeed \<or> ch = Some Chars_CarriageReturn \<or>
      ch = Some Chars_LineSeparator \<or> ch = Some Chars_ParagraphSeparator)"

definition collectComment :: "CommentType \<Rightarrow> jsstring \<Rightarrow> int \<Rightarrow> int \<Rightarrow> Parser \<Rightarrow> Parser" where
  "collectComment ty val from to s =
     (case comments s of
        None \<Rightarrow> s
      | Some sink \<Rightarrow> s\<lparr>comments := Some (sink @ [(ty, val, from, to)])\<rparr>)"

function skipShebangComment :: "Parser \<Rightarrow> Parser" where
  "skipShebangComment s =
     (if hasNext s then
        (if isLineTerminatorCase (nextChar s) then
           (let s1 = advanceNewline s in
            if hasNext s1 \<and> nextChar s1 = Some Chars_LineFeed
            then s1\<lparr>index := index s1 + 1\<rparr> else s1)
         else skipShebangComment (advance s))
      else s)"
  by pat_completeness auto
termination
  by (relation "measure (\<lambda>s. nat (int (length (source s)) - index s))")
     (auto simp: hasNext_def advance_def)

declare skipShebangComment.simps [simp del]

function skipSingleLineComment_loop :: "Parser \<Rightarrow> Parser" where
  "skipSingleLineComment_loop s =
     (if hasNext s then
        (if isLineTerminatorCase (nextChar s) then
           (let s1 = advanceNewline s in
            if hasNext s1 \<and> nextChar s1 = Some Chars_LineFeed
            then s1\<lparr>index := index s1 + 1\<rparr> else s1)
         else skipSingleLineComment_loop (advance s))
      else s)"
  by pat_completeness auto
termination
  by (relation "measure (\<lambda>s. nat (int (length (source s)) - index s))")
     (auto simp: hasNext_def advance_def)

declare skipSingleLineComment_loop.simps [simp del]

definition skipSingleLineComment :: "int \<Rightarrow> Parser \<Rightarrow> Parser" where
  "skipSingleLineComment offset s =
     (let start = index s;
          s1 = skipSingleLineComment_loop s
      in if Flags_OptionsOnComment \<in> flags s1
         then collectComment SingleLineComment (slice (source s1) start (index s1))
                (startPos s1) (index s1) s1
         else s1)"

function skipMultiLineComment_loop :: "Parser \<Rightarrow> Parser \<times> bool" where
  "skipMultiLineComment_loop s =
     (if hasNext s then
        (let ch = nextChar s in
         if ch = Some Chars_Asterisk then
           (let s1 = advance s in
            if fst (consume Chars_Slash s1) then (snd (consume Chars_Slash s1), True)
            else skipMultiLineComment_loop (snd (consume Chars_Slash s1)))
         else if isLineTerminatorCase ch then
           (let s1 = advanceNewline s in
            skipMultiLineComment_loop
              (if hasNext s1 \<and> nextChar s1 = Some Chars_LineFeed
               then s1\<lparr>index := index s1 + 1\<rparr> else s1))
         else skipMultiLineComment_loop (advance s))
      else (s, False))"
  by pat_completeness auto
termination
  by (relation "measure (\<lambda>s. nat (int (length (source s)) - index s))")
     (auto simp: hasNext_def advance_def advanceNewline_def consume_def)

declare skipMultiLineComment_loop.simps [simp del]

definition skipMultiLineComment :: "Parser \<Rightarrow> thrown + Parser" where
  "skipMultiLineComment s =
     (let start = index s;
          (s1, closed) = skipMultiLineComment_loop s
      in if \<not> closed then error Errors_UnterminatedComment
         else if Flags_OptionsOnComment \<in> flags s1
         then Inr (collectComment MultiLineComment (slice (source s1) start (index s1 - 2))
                     (startPos s1) (index s1) s1)
         else Inr s1)"

definition peekUnicodeEscape :: "Imports \<Rightarrow> Parser \<Rightarrow> thrown + (int \<times> Parser)" where
  "peekUnicodeEscape imp s =
     (case peekExtendedUnicodeEscape (advance s) of
        Inl e \<Rightarrow> Inl e
      | Inr (cookedChar, s1) \<Rightarrow>
          if \<not> isValidIdentifierStart imp (Some cookedChar) then error Errors_Unexpected
          else Inr (cookedChar, advance s1))"

lemma peekUnicodeEscape_index:
  "peekUnicodeEscape imp s = Inr (c, s') \<Longrightarrow> index s < index s' \<and> source s' = source s"
  by (auto simp: peekUnicodeEscape_def error_def advance_def
      split: sum.splits if_splits dest!: peekExtendedUnicodeEscape_index)

function scanIdentifier_loop ::
    "Imports \<Rightarrow> Parser \<Rightarrow> jsstring \<Rightarrow> int \<Rightarrow> thrown + (Parser \<times> jsstring \<times> int)" where
  "scanIdentifier_loop imp s ret start =
     (if hasNext s then
        (let c = nextChar s in
         if isIdentifierPart imp c then scanIdentifier_loop imp (advance s) ret start
         else if c = Some Chars_Backslash then
           (case peekUnicodeEscape imp s of
              Inl e \<Rightarrow> Inl e
            | Inr (cp, s1) \<Rightarrow>
                scanIdentifier_loop imp s1
                  (ret @ slice (source s) start (index s) @ fromCodePoint imp cp) (index s1))
         else Inr (s, ret, start))
      else Inr (s, ret, start))"
  by pat_completeness auto
termination
proof (relation "measure (\<lambda>(imp, s, ret, start). nat (int (length (source s)) - index s))",
       goal_cases)
  case 1
  show ?case by simp
next
  case 2
  then show ?case by (simp add: hasNext_def advance_def)
next
  case (3 imp s ret start c x cp s1)
  then have "peekUnicodeEscape imp s = Inr (cp, s1)" by simp
  from peekUnicodeEscape_index[OF this] 3 show ?case
    by (simp add: hasNext_def)
qed

declare scanIdentifier_loop.simps [simp del]

definition scanIdentifier :: "Imports \<Rightarrow> Context set \<Rightarrow> Parser \<Rightarrow> thrown + (Token \<times> Parser)" where
  "scanIdentifier imp context s =
     (case scanIdentifier_loop imp s [] (index s) of
        Inl e \<Rightarrow> Inl e
      | Inr (s1, ret0, start) \<Rightarrow>
          (let ret = (if start < index s1
                      then ret0 @ slice (source s1) start (index s1) else ret0);
               hasEscape = (index s1 - start \<noteq> int (length ret));
               len = length ret
           in if hasEscape \<and> ret = js ''target''
              then error Errors_InvalidEscapedReservedWord
              else
                (let s2 = s1\<lparr>tokenValue := StringValue ret\<rparr>;
                     ch = charCodeAt ret 0
                 in if 2 \<le> len \<and> len \<le> 11 \<and> js_ge ch Chars_LowerA \<and> js_le ch Chars_LowerZ
                    then
                      (case descKeyword imp ret of
                         Some tk \<Rightarrow>
                           if hasEscape then error Errors_InvalidEscapedReservedWord
                           else Inr (tk, s2)
                       | None \<Rightarrow> Inr (Token_Identifier, s2))
                    else Inr (Token_Identifier, s2))))"

text \<open>
  The \<open>switch\<close> in the loop of \<open>scanTemplate\<close>, for a \<open>ch\<close> that does not end the
  loop; it returns the state and \<open>ret\<close>. In the case of the backslash \<open>ch\<close> is the
  backslash, and in the case of the carriage return \<open>nextChar\<close> is that carriage return.
\<close>

definition scanTemplate_switch ::
    "Imports \<Rightarrow> Context set \<Rightarrow> Parser \<Rightarrow> jsstring \<Rightarrow> code \<Rightarrow> thrown + (Parser \<times> jsstring)" where
  "scanTemplate_switch imp context s ret ch =
     (if ch = Some Chars_Dollar then Inr (s, ret @ [36])
      else if ch = Some Chars_Backslash then
        (let s1 = advance s in
         if \<not> hasNext s1 then error Errors_UnterminatedTemplate
         else if js_ge ch 128 then Inr (s1, ret @ fromCodePoint imp (the ch))
         else
           (case scanStringEscape imp context s1 of
              Inl e \<Rightarrow> Inl e
            | Inr (str, s2) \<Rightarrow> Inr (s2, ret @ str)))
      else if ch = Some Chars_CarriageReturn then
        (let (s1, ret1, ch1) =
               (if hasNext s \<and> nextChar s = Some Chars_LineFeed
                then (s\<lparr>index := index s + 1\<rparr>, ret @ fromCodePoint imp (the ch), nextChar s)
                else (s, ret, ch))
         in Inr (s1\<lparr>column := - 1, line := line s1 + 1\<rparr>,
                 ret1 @ fromCodePoint imp (the ch1)))
      else if ch = Some Chars_LineFeed \<or> ch = Some Chars_LineSeparator \<or>
              ch = Some Chars_ParagraphSeparator
      then Inr (s\<lparr>column := - 1, line := line s + 1\<rparr>, ret @ fromCodePoint imp (the ch))
      else Inr (s, ret @ (case ch of None \<Rightarrow> [] | Some c \<Rightarrow> fromCodePoint imp c)))"

lemma scanTemplate_switch_index:
  assumes "scanTemplate_switch imp context s ret ch = Inr (s', ret')"
  shows "index s \<le> index s' \<and> source s' = source s"
proof (cases "ch = Some Chars_Backslash")
  case True
  with assms have "(\<exists>str. scanStringEscape imp context (advance s) = Inr (str, s')) \<or>
      s' = advance s"
    by (auto simp: scanTemplate_switch_def Let_def error_def split: if_splits sum.splits)
  then show ?thesis
    by (auto simp: advance_def dest!: scanStringEscape_index)
next
  case False
  with assms show ?thesis
    by (auto simp: scanTemplate_switch_def Let_def split: if_splits)
qed

text \<open>The loop of \<open>scanTemplate\<close>; it returns the state, \<open>ret\<close> and \<open>tail\<close>.\<close>

function scanTemplate_loop ::
    "Imports \<Rightarrow> Context set \<Rightarrow> Parser \<Rightarrow> jsstring \<Rightarrow> code \<Rightarrow>
     thrown + (Parser \<times> jsstring \<times> bool)" where
  "scanTemplate_loop imp context s ret ch =
     (if ch = Some Chars_Backtick then Inr (s, ret, True)
      else if ch = Some Chars_Dollar \<and> index s + 1 < int (length (source s)) \<and>
              charCodeAt (source s) (index s + 1) = Some Chars_LeftBrace
      then Inr (s\<lparr>index := index s + 1, column := column s + 1\<rparr>, ret, False)
      else
        (case scanTemplate_switch imp context s ret ch of
           Inl e \<Rightarrow> Inl e
         | Inr (s3, ret3) \<Rightarrow>
             if \<not> hasNext (advance s3) then error Errors_UnterminatedTemplate
             else scanTemplate_loop imp context (advance s3) ret3 (nextChar (advance s3))))"
  by pat_completeness auto
termination
proof (relation "measure (\<lambda>(imp, context, s, ret, ch).
                   nat (int (length (source s)) - index s))", goal_cases)
  case 1
  show ?case by simp
next
  case (2 imp cx s ret ch x s3 ret3)
  then have "scanTemplate_switch imp cx s ret ch = Inr (s3, ret3)" by simp
  from scanTemplate_switch_index[OF this] 2 show ?case
    by (simp add: hasNext_def advance_def)
qed

declare scanTemplate_loop.simps [simp del]

definition scanTemplate :: "Imports \<Rightarrow> Context set \<Rightarrow> Parser \<Rightarrow> thrown + (Token \<times> Parser)" where
  "scanTemplate imp context s =
     (let start = index s;
          s1 = advance s
      in if \<not> hasNext s1 then error Errors_UnterminatedTemplate
         else
           (case scanTemplate_loop imp context s1 [] (nextChar s1) of
              Inl e \<Rightarrow> Inl e
            | Inr (s2, ret, tail) \<Rightarrow>
                (let s3 = advance s2;
                     s4 = s3\<lparr>tokenValue := StringValue ret\<rparr>
                 in if tail
                    then Inr (Token_TemplateTail,
                              s4\<lparr>tokenRaw := slice (source s4) (start + 1) (index s4 - 1)\<rparr>)
                    else Inr (Token_TemplateCont,
                              s4\<lparr>tokenRaw := slice (source s4) (start + 1) (index s4 - 2)\<rparr>))))"

section \<open>Lexer: \<open>scanToken\<close>\<close>

text \<open>
  One round of the \<open>while\<close> loop of \<open>scanToken\<close> either goes on with the loop
  (\<open>continue\<close>) or leaves the function (\<open>return\<close>, or an error thrown).
\<close>

datatype LoopStep = Continue Parser | Return "thrown + (Token \<times> Parser)"

definition isWhiteSpaceCase :: "code \<Rightarrow> bool" where
  \<comment> \<open>the \<open>case\<close> labels from \<open>Tab\<close> to \<open>ZeroWidthNoBreakSpace\<close>; \<open>EnQuad\<close> to
      \<open>HairSpace\<close> are the eleven code units U+2000 to U+200A\<close>
  "isWhiteSpaceCase ch =
     (ch = Some Chars_Tab \<or> ch = Some Chars_VerticalTab \<or> ch = Some Chars_FormFeed \<or>
      ch = Some Chars_Space \<or> ch = Some Chars_NonBreakingSpace \<or> ch = Some Chars_Ogham \<or>
      (js_ge ch Chars_EnQuad \<and> js_le ch Chars_HairSpace) \<or>
      ch = Some Chars_NarrowNoBreakSpace \<or> ch = Some Chars_MathematicalSpace \<or>
      ch = Some Chars_IdeographicSpace \<or> ch = Some Chars_ZeroWidthNoBreakSpace)"

definition isIdentifierStartCase :: "code \<Rightarrow> bool" where
  \<comment> \<open>the \<open>case\<close> labels \<open>Backslash\<close>, \<open>UpperA\<close> to \<open>UpperZ\<close>, \<open>Dollar\<close>,
      \<open>Underscore\<close>, \<open>LowerA\<close> to \<open>LowerZ\<close>\<close>
  "isIdentifierStartCase ch =
     (ch = Some Chars_Backslash \<or> (js_ge ch Chars_UpperA \<and> js_le ch Chars_UpperZ) \<or>
      ch = Some Chars_Dollar \<or> ch = Some Chars_Underscore \<or>
      (js_ge ch Chars_LowerA \<and> js_le ch Chars_LowerZ))"

text \<open>
  The cases from \<open>LeftBrace\<close> to the default case: each of them returns or throws.
  The case of \<open>0\<close> runs on into the case of the digits when it returns nothing.
\<close>

definition scanToken_rest :: "Imports \<Rightarrow> Context set \<Rightarrow> code \<Rightarrow> Parser \<Rightarrow> thrown + (Token \<times> Parser)" where
  "scanToken_rest imp context first s =
     (if first = Some Chars_LeftBrace then Inr (Token_LeftBrace, advance s)
      else if first = Some Chars_RightBrace then
        (let s1 = advance s in
         Inr (Token_RightBrace, s1\<lparr>flags := insert Flags_LineTerminator (flags s1)\<rparr>))
      else if first = Some Chars_Tilde then Inr (Token_Complement, advance s)
      else if first = Some Chars_QuestionMark then Inr (Token_QuestionMark, advance s)
      else if first = Some Chars_LeftBracket then Inr (Token_LeftBracket, advance s)
      else if first = Some Chars_RightBracket then Inr (Token_RightBracket, advance s)
      else if first = Some Chars_Comma then Inr (Token_Comma, advance s)
      else if first = Some Chars_Colon then Inr (Token_Colon, advance s)
      else if first = Some Chars_Semicolon then Inr (Token_Semicolon, advance s)
      else if first = Some Chars_LeftParen then Inr (Token_LeftParen, advance s)
      else if first = Some Chars_RightParen then Inr (Token_RightParen, advance s)
      else if first = Some Chars_Backtick then scanTemplate imp context s
      else if first = Some Chars_DoubleQuote \<or> first = Some Chars_SingleQuote
      then scanString imp context (the first) s
      else if first = Some Chars_Ampersand then
        (let s1 = advance s; nxt = nextChar s1 in
         if nxt = Some Chars_Ampersand then Inr (Token_LogicalAnd, advance s1)
         else if nxt = Some Chars_EqualSign then Inr (Token_BitwiseAndAssign, advance s1)
         else Inr (Token_BitwiseAnd, s1))
      else if first = Some Chars_Percent then
        (let (b, s1) = consume Chars_EqualSign (advance s) in
         if \<not> b then Inr (Token_Modulo, s1) else Inr (Token_ModuloAssign, s1))
      else if first = Some Chars_Exclamation then
        (let (b, s1) = consume Chars_EqualSign (advance s) in
         if \<not> b then Inr (Token_Negate, s1)
         else
           (let (b2, s2) = consume Chars_EqualSign s1 in
            if \<not> b2 then Inr (Token_LooseNotEqual, s2) else Inr (Token_StrictNotEqual, s2)))
      else if first = Some Chars_Caret then
        (let (b, s1) = consume Chars_EqualSign (advance s) in
         if \<not> b then Inr (Token_BitwiseXor, s1) else Inr (Token_BitwiseXorAssign, s1))
      else if first = Some Chars_Asterisk then
        (let s1 = advance s in
         if \<not> hasNext s1 then Inr (Token_Multiply, s1)
         else if nextChar s1 = Some Chars_EqualSign then Inr (Token_MultiplyAssign, advance s1)
         else if nextChar s1 \<noteq> Some Chars_Asterisk then Inr (Token_Multiply, s1)
         else
           (let (b, s2) = consume Chars_EqualSign (advance s1) in
            if \<not> b then Inr (Token_Exponentiate, s2)
            else Inr (Token_ExponentiateAssign, s2)))
      else if first = Some Chars_Plus then
        (let s1 = advance s in
         if \<not> hasNext s1 then Inr (Token_Add, s1)
         else if nextChar s1 = Some Chars_Plus then Inr (Token_Increment, advance s1)
         else if nextChar s1 = Some Chars_EqualSign then Inr (Token_AddAssign, advance s1)
         else Inr (Token_Add, s1))
      else if first = Some Chars_EqualSign then
        (let s1 = advance s in
         if \<not> hasNext s1 then Inr (Token_Assign, s1)
         else if nextChar s1 = Some Chars_EqualSign then
           (let (b, s2) = consume Chars_EqualSign (advance s1) in
            if b then Inr (Token_StrictEqual, s2) else Inr (Token_LooseEqual, s2))
         else if nextChar s1 = Some Chars_GreaterThan then Inr (Token_Arrow, advance s1)
         else Inr (Token_Assign, s1))
      else if first = Some Chars_GreaterThan then
        (let s1 = advance s in
         if Context_JSXChild \<in> context then Inr (Token_GreaterThan, s1)
         else if nextChar s1 = Some Chars_EqualSign
         then Inr (Token_GreaterThanOrEqual, advance s1)
         else if nextChar s1 \<noteq> Some Chars_GreaterThan then Inr (Token_GreaterThan, s1)
         else
           (let s2 = advance s1 in
            if nextChar s2 = Some Chars_GreaterThan then
              (let (b, s3) = consume Chars_EqualSign (advance s2) in
               if b then Inr (Token_LogicalShiftRightAssign, s3)
               else Inr (Token_LogicalShiftRight, s3))
            else if nextChar s2 = Some Chars_EqualSign
            then Inr (Token_ShiftRightAssign, advance s2)
            else Inr (Token_ShiftRight, s2)))
      else if first = Some Chars_VerticalBar then
        (let s1 = advance s; nxt = nextChar s1 in
         if nxt = Some Chars_VerticalBar then Inr (Token_LogicalOr, advance s1)
         else if nxt = Some Chars_EqualSign then Inr (Token_BitwiseOrAssign, advance s1)
         else Inr (Token_BitwiseOr, s1))
      else if first = Some Chars_Period then
        (let i = index s + 1;
             nxt = charCodeAt (source s) i
         in if i < int (length (source s)) \<and> js_ge nxt Chars_Zero \<and> js_le nxt Chars_Nine then
              (case scanNumber context (the first) s of
                 Inl e \<Rightarrow> Inl e
               | Inr (tk, s1) \<Rightarrow> Inr (Token_NumericLiteral, s1))
            else if i < int (length (source s)) \<and> nxt = Some Chars_Period \<and>
                    i + 1 < int (length (source s)) \<and>
                    charCodeAt (source s) (i + 1) = Some Chars_Period
            then Inr (Token_Ellipsis, s\<lparr>index := i + 1 + 1, column := column s + 3\<rparr>)
            else Inr (Token_Period, advance s))
      else if js_ge first Chars_Zero \<and> js_le first Chars_Nine then
        (let i = index s + 1;
             c = charCodeAt (source s) i;
             prefixed = (first = Some Chars_Zero \<and> i + 1 < int (length (source s)))
         in if prefixed \<and> (c = Some Chars_LowerX \<or> c = Some Chars_UpperX)
            then scanHexadecimalDigit s
            else if prefixed \<and> (c = Some Chars_LowerB \<or> c = Some Chars_UpperB)
            then scanBinaryDigits context s
            else if prefixed \<and> (c = Some Chars_LowerO \<or> c = Some Chars_UpperO)
            then scanOctalDigits context s
            else if first = Some Chars_Zero \<and> i < int (length (source s)) \<and>
                    js_ge c Chars_Zero \<and> js_le c Chars_Seven
            then scanNumberLiteral context s
            else scanNumber context (the first) s)
      else if isIdentifierStartCase first then scanIdentifier imp context s
      else if isValidIdentifierStart imp first then scanIdentifier imp context s
      else error Errors_Unexpected)"

text \<open>
  The case of \<open>-\<close>. The case of \<open><\<close> runs on into it when its inner \<open>switch\<close> is left
  by \<open>break\<close>.
\<close>

definition scanToken_hyphen :: "Context set \<Rightarrow> Parser \<Rightarrow> LoopStep" where
  "scanToken_hyphen context s =
     (let s1 = advance s;
          nxt = nextChar s1
      in if nxt = Some Chars_Hyphen then
           (let (b, s2) = consume Chars_GreaterThan (advance s1) in
            if b then
              Continue
                (if Context_Module \<notin> context \<or> Flags_LineTerminator \<in> flags s2
                 then skipSingleLineComment 3 s2 else s2)
            else Return (Inr (Token_Decrement, s2)))
         else if nxt = Some Chars_EqualSign then Return (Inr (Token_SubtractAssign, advance s1))
         else Return (Inr (Token_Subtract, s1)))"

text \<open>
  The case of \<open><\<close> after its first \<open>advance\<close>. The three calls of \<open>consume\<close> are
  joined by \<open>&&\<close>: a call that fails leaves the characters consumed by the calls before
  it. \<open>scanToken_lessThan_switch\<close> is the inner \<open>switch\<close>.
\<close>

definition scanToken_lessThan_switch :: "Context set \<Rightarrow> Parser \<Rightarrow> LoopStep" where
  "scanToken_lessThan_switch context s =
     (let nxt = nextChar s in
      if nxt = Some Chars_LessThan then
        (let (b, s1) = consume Chars_EqualSign (advance s) in
         if b then Return (Inr (Token_ShiftLeftAssign, s1))
         else Return (Inr (Token_ShiftLeft, s1)))
      else if nxt = Some Chars_EqualSign then Return (Inr (Token_LessThanOrEqual, advance s))
      else if nxt = Some Chars_Slash then
        (let after = charCodeAt (source s) (index s + 1) in
         if Flags_OptionsJSX \<notin> flags s then scanToken_hyphen context s
         else if after = Some Chars_Asterisk \<or> after = Some Chars_Slash
         then scanToken_hyphen context s
         else Return (Inr (Token_JSXClose, advance s)))
      else Return (Inr (Token_LessThan, s)))"

definition scanToken_lessThan :: "Context set \<Rightarrow> Parser \<Rightarrow> LoopStep" where
  "scanToken_lessThan context s =
     (let (b1, s1) = (if Context_Module \<notin> context then consume Chars_Exclamation s
                      else (False, s));
          (b2, s2) = (if b1 then consume Chars_Hyphen s1 else (False, s1));
          (b3, s3) = (if b2 then consume Chars_Hyphen s2 else (False, s2))
      in if b3 then Continue (skipSingleLineComment 4 s3)
         else scanToken_lessThan_switch context s3)"

text \<open>
  The \<open>switch\<close> on the first character. The case of \<open>#\<close> has no \<open>break\<close>: when it
  does not skip a shebang it runs on into the case of \<open>{\<close>, which advances and returns
  \<open>Token.LeftBrace\<close>.
\<close>

definition scanToken_switch :: "Imports \<Rightarrow> Context set \<Rightarrow> Parser \<Rightarrow> LoopStep" where
  "scanToken_switch imp context s =
     (let first = nextChar s in
      if first = Some Chars_CarriageReturn \<or> first = Some Chars_LineFeed then
        (let s1 = advanceNewline s in
         Continue
           (if hasNext s1 \<and> first = Some Chars_CarriageReturn \<and>
               nextChar s1 = Some Chars_LineFeed
            then s1\<lparr>index := index s1 + 1\<rparr> else s1))
      else if first = Some Chars_LineSeparator \<or> first = Some Chars_ParagraphSeparator
      then Continue (advanceNewline s)
      else if isWhiteSpaceCase first then Continue (advance s)
      else if first = Some Chars_Slash then
        (let s1 = advance s; nxt = nextChar s1 in
         if nxt = Some Chars_Slash then Continue (skipSingleLineComment 2 (advance s1))
         else if nxt = Some Chars_Asterisk then
           (case skipMultiLineComment (advance s1) of
              Inl e \<Rightarrow> Return (Inl e)
            | Inr s2 \<Rightarrow> Continue s2)
         else if nxt = Some Chars_EqualSign then Return (Inr (Token_DivideAssign, advance s1))
         else Return (Inr (Token_Divide, s1)))
      else if first = Some Chars_LessThan then scanToken_lessThan context (advance s)
      else if first = Some Chars_Hyphen then scanToken_hyphen context s
      else if first = Some Chars_Hash \<and> index s = 0 \<and>
              charCodeAt (source s) (index s + 1) = Some Chars_Exclamation
      then Continue (skipShebangComment (advanceTwice s))
      else if first = Some Chars_Hash then Return (Inr (Token_LeftBrace, advance s))
      else Return (scanToken_rest imp context first s))"

text \<open>A round that goes on with the loop has moved the index forward.\<close>

lemma skipSingleLineComment_loop_index:
  "index s \<le> index (skipSingleLineComment_loop s) \<and>
   source (skipSingleLineComment_loop s) = source s"
proof (induction s rule: skipSingleLineComment_loop.induct)
  case (1 s)
  show ?case
  proof (cases "hasNext s \<and> \<not> isLineTerminatorCase (nextChar s)")
    case True
    then have e: "skipSingleLineComment_loop s = skipSingleLineComment_loop (advance s)"
      by (subst skipSingleLineComment_loop.simps) simp
    from 1 True have "index (advance s) \<le> index (skipSingleLineComment_loop (advance s)) \<and>
       source (skipSingleLineComment_loop (advance s)) = source (advance s)" by simp
    with e show ?thesis by (simp add: advance_def)
  next
    case False
    then show ?thesis
      by (subst skipSingleLineComment_loop.simps, subst (2) skipSingleLineComment_loop.simps)
         (auto simp: Let_def advanceNewline_def)
  qed
qed

lemma skipSingleLineComment_index:
  "index s \<le> index (skipSingleLineComment offset s) \<and>
   source (skipSingleLineComment offset s) = source s"
  using skipSingleLineComment_loop_index[of s]
  by (auto simp: skipSingleLineComment_def Let_def collectComment_def split: option.splits)

lemma skipShebangComment_index:
  "index s \<le> index (skipShebangComment s) \<and> source (skipShebangComment s) = source s"
proof (induction s rule: skipShebangComment.induct)
  case (1 s)
  show ?case
  proof (cases "hasNext s \<and> \<not> isLineTerminatorCase (nextChar s)")
    case True
    then have e: "skipShebangComment s = skipShebangComment (advance s)"
      by (subst skipShebangComment.simps) simp
    from 1 True have "index (advance s) \<le> index (skipShebangComment (advance s)) \<and>
       source (skipShebangComment (advance s)) = source (advance s)" by simp
    with e show ?thesis by (simp add: advance_def)
  next
    case False
    then show ?thesis
      by (subst skipShebangComment.simps, subst (2) skipShebangComment.simps)
         (auto simp: Let_def advanceNewline_def)
  qed
qed

lemma skipMultiLineComment_loop_index:
  "index s \<le> index (fst (skipMultiLineComment_loop s)) \<and>
   source (fst (skipMultiLineComment_loop s)) = source s"
proof (induction s rule: skipMultiLineComment_loop.induct)
  case (1 s)
  let ?nl = "(if hasNext (advanceNewline s) \<and> nextChar (advanceNewline s) = Some Chars_LineFeed
               then (advanceNewline s)\<lparr>index := index (advanceNewline s) + 1\<rparr>
               else advanceNewline s)"
  consider
      (stop) "\<not> hasNext s"
    | (star_closed) "hasNext s" "nextChar s = Some Chars_Asterisk"
        "fst (consume Chars_Slash (advance s))"
    | (star_open) "hasNext s" "nextChar s = Some Chars_Asterisk"
        "\<not> fst (consume Chars_Slash (advance s))"
    | (newline) "hasNext s" "nextChar s \<noteq> Some Chars_Asterisk"
        "isLineTerminatorCase (nextChar s)"
    | (other) "hasNext s" "nextChar s \<noteq> Some Chars_Asterisk"
        "\<not> isLineTerminatorCase (nextChar s)"
    by blast
  then show ?case
  proof cases
    case stop
    then show ?thesis by (subst skipMultiLineComment_loop.simps, subst (2) skipMultiLineComment_loop.simps) simp
  next
    case star_closed
    then have "skipMultiLineComment_loop s = (snd (consume Chars_Slash (advance s)), True)"
      by (subst skipMultiLineComment_loop.simps) (simp add: Let_def)
    then show ?thesis by (simp add: consume_def advance_def)
  next
    case star_open
    then have e: "skipMultiLineComment_loop s
        = skipMultiLineComment_loop (snd (consume Chars_Slash (advance s)))"
      by (subst skipMultiLineComment_loop.simps) (simp add: Let_def)
    from "1.IH"(1)[OF star_open(1) refl star_open(2) refl star_open(3)] e
    show ?thesis by (simp add: consume_def advance_def split: if_splits)
  next
    case newline
    define t where "t = ?nl"
    have it: "index s \<le> index t \<and> source t = source s"
      by (simp add: t_def advanceNewline_def)
    from newline have e: "skipMultiLineComment_loop s = skipMultiLineComment_loop t"
      unfolding t_def by (subst skipMultiLineComment_loop.simps) (simp add: Let_def)
    from "1.IH"(2)[OF newline(1) refl newline(2) newline(3) refl]
    have "index t \<le> index (fst (skipMultiLineComment_loop t)) \<and>
          source (fst (skipMultiLineComment_loop t)) = source t"
      unfolding t_def .
    with e it show ?thesis by simp
  next
    case other
    then have e: "skipMultiLineComment_loop s = skipMultiLineComment_loop (advance s)"
      by (subst skipMultiLineComment_loop.simps) (simp add: Let_def)
    from "1.IH"(3)[OF other(1) refl other(2) other(3)] e
    show ?thesis by (simp add: advance_def)
  qed
qed

lemma skipMultiLineComment_index:
  "skipMultiLineComment s = Inr s' \<Longrightarrow> index s \<le> index s' \<and> source s' = source s"
  using skipMultiLineComment_loop_index[of s]
  by (auto simp: skipMultiLineComment_def Let_def collectComment_def error_def
      split: option.splits prod.splits if_splits)

lemma consume_index:
  "consume c s = (b, s') \<Longrightarrow> index s \<le> index s' \<and> source s' = source s"
  by (auto simp: consume_def advance_def split: if_splits)

lemma scanToken_hyphen_index:
  assumes "scanToken_hyphen context s = Continue s'"
  shows "index s < index s' \<and> source s' = source s"
proof -
  define t where "t = advance (advance (advance s))"
  have it: "index s < index t" "source t = source s"
    by (simp_all add: t_def advance_def)
  from assms have "s' = skipSingleLineComment 3 t \<or> s' = t"
    by (auto simp: scanToken_hyphen_def Let_def consume_def t_def split: if_splits)
  with skipSingleLineComment_index[of t 3] it show ?thesis by auto
qed

lemma scanToken_lessThan_switch_index:
  assumes "scanToken_lessThan_switch context s = Continue s'"
  shows "index s < index s' \<and> source s' = source s"
proof -
  from assms have "scanToken_hyphen context s = Continue s'"
    by (auto simp: scanToken_lessThan_switch_def Let_def split: if_splits prod.splits)
  then show ?thesis by (rule scanToken_hyphen_index)
qed

lemma scanToken_lessThan_index:
  assumes "scanToken_lessThan context s = Continue s'"
  shows "index s \<le> index s' \<and> source s' = source s"
proof -
  obtain b1 s1 where c1: "(if Context_Module \<notin> context then consume Chars_Exclamation s
                         else (False, s)) = (b1, s1)"
    by (cases "(if Context_Module \<notin> context then consume Chars_Exclamation s
                         else (False, s))") auto
  obtain b2 s2 where c2: "(if b1 then consume Chars_Hyphen s1 else (False, s1)) = (b2, s2)"
    by (cases "(if b1 then consume Chars_Hyphen s1 else (False, s1))") auto
  obtain b3 s3 where c3: "(if b2 then consume Chars_Hyphen s2 else (False, s2)) = (b3, s3)"
    by (cases "(if b2 then consume Chars_Hyphen s2 else (False, s2))") auto
  from c1 have i1: "index s \<le> index s1 \<and> source s1 = source s"
    by (auto split: if_splits dest: consume_index)
  from c2 have i2: "index s1 \<le> index s2 \<and> source s2 = source s1"
    by (auto split: if_splits dest: consume_index)
  from c3 have i3: "index s2 \<le> index s3 \<and> source s3 = source s2"
    by (auto split: if_splits dest: consume_index)
  from i1 i2 i3 have i: "index s \<le> index s3" "source s3 = source s" by simp_all
  have "scanToken_lessThan context s =
      (if b3 then Continue (skipSingleLineComment 4 s3)
       else scanToken_lessThan_switch context s3)"
    unfolding scanToken_lessThan_def c1 c2 c3 Let_def prod.case ..
  with assms have
    "s' = skipSingleLineComment 4 s3 \<or> scanToken_lessThan_switch context s3 = Continue s'"
    by (auto split: if_splits)
  then show ?thesis
    using skipSingleLineComment_index[of s3 4] i
    by (auto dest!: scanToken_lessThan_switch_index)
qed

lemma scanToken_switch_index:
  assumes "scanToken_switch imp context s = Continue s'"
  shows "index s < index s' \<and> source s' = source s"
proof -
  let ?first = "nextChar s"
  consider
      (nl) "?first = Some Chars_CarriageReturn \<or> ?first = Some Chars_LineFeed"
    | (ls) "\<not> (?first = Some Chars_CarriageReturn \<or> ?first = Some Chars_LineFeed)"
           "?first = Some Chars_LineSeparator \<or> ?first = Some Chars_ParagraphSeparator"
    | (ws) "\<not> (?first = Some Chars_CarriageReturn \<or> ?first = Some Chars_LineFeed)"
           "\<not> (?first = Some Chars_LineSeparator \<or> ?first = Some Chars_ParagraphSeparator)"
           "isWhiteSpaceCase ?first"
    | (other) "\<not> (?first = Some Chars_CarriageReturn \<or> ?first = Some Chars_LineFeed)"
           "\<not> (?first = Some Chars_LineSeparator \<or> ?first = Some Chars_ParagraphSeparator)"
           "\<not> isWhiteSpaceCase ?first"
    by blast
  then show ?thesis
  proof cases
    case nl
    with assms show ?thesis
      by (auto simp: scanToken_switch_def Let_def advanceNewline_def split: if_splits)
  next
    case ls
    with assms have "s' = advanceNewline s"
      by (simp add: scanToken_switch_def Let_def)
    then show ?thesis by (simp add: advanceNewline_def)
  next
    case ws
    with assms have "s' = advance s"
      by (simp add: scanToken_switch_def Let_def)
    then show ?thesis by (simp add: advance_def)
  next
    case other
    note o = other
    show ?thesis
    proof (cases "?first = Some Chars_Slash")
      case True
      with o assms have
        "s' = skipSingleLineComment 2 (advance (advance s)) \<or>
         skipMultiLineComment (advance (advance s)) = Inr s'"
        by (simp add: scanToken_switch_def Let_def split: if_splits sum.splits)
      then show ?thesis
        using skipSingleLineComment_index[of "advance (advance s)" 2]
        by (auto simp: advance_def dest!: skipMultiLineComment_index)
    next
      case ns: False
      show ?thesis
      proof (cases "?first = Some Chars_LessThan")
        case True
        with o ns assms have "scanToken_lessThan context (advance s) = Continue s'"
          by (simp add: scanToken_switch_def Let_def)
        from scanToken_lessThan_index[OF this] show ?thesis
          by (simp add: advance_def)
      next
        case nlt: False
        show ?thesis
        proof (cases "?first = Some Chars_Hyphen")
          case True
          with o ns nlt assms have "scanToken_hyphen context s = Continue s'"
            by (simp add: scanToken_switch_def Let_def)
          then show ?thesis by (rule scanToken_hyphen_index)
        next
          case False
          with o ns nlt assms have "s' = skipShebangComment (advanceTwice s)"
            by (simp add: scanToken_switch_def Let_def split: if_splits)
          then show ?thesis
            using skipShebangComment_index[of "advanceTwice s"]
            by (simp add: advanceTwice_def)
        qed
      qed
    qed
  qed
qed

function scanToken_loop :: "Imports \<Rightarrow> Context set \<Rightarrow> Parser \<Rightarrow> thrown + (Token \<times> Parser)" where
  "scanToken_loop imp context s =
     (if hasNext s then
        (case scanToken_switch imp context
                (s\<lparr>startPos := index s, startColumn := column s, startLine := line s\<rparr>) of
           Continue s1 \<Rightarrow> scanToken_loop imp context s1
         | Return r \<Rightarrow> r)
      else Inr (Token_EndOfSource, s))"
  by pat_completeness auto
termination
proof (relation "measure (\<lambda>(imp, context, s). nat (int (length (source s)) - index s))",
       goal_cases)
  case 1
  show ?case by simp
next
  case (2 imp cx s s1)
  from scanToken_switch_index[OF 2(2)] 2(1) show ?case
    by (simp add: hasNext_def)
qed

declare scanToken_loop.simps [simp del]

definition scanToken :: "Imports \<Rightarrow> Context set \<Rightarrow> Parser \<Rightarrow> thrown + (Token \<times> Parser)" where
  "scanToken imp context s =
     scanToken_loop imp context
       (s\<lparr>flags := flags s - {Flags_LineTerminator},
          endPos := index s, endColumn := column s, endLine := line s\<rparr>)"

definition nextToken :: "Imports \<Rightarrow> Context set \<Rightarrow> Parser \<Rightarrow> thrown + (Token \<times> Parser)" where
  "nextToken imp context s =
     (case scanToken imp context s of
        Inl e \<Rightarrow> Inl e
      | Inr (tk, s1) \<Rightarrow> Inr (tk, s1\<lparr>token := tk\<rparr>))"

section \<open>Lexer: regular expression literals\<close>

text \<open>
  The first loop of \<open>scanRegularExpression\<close>, over the body, with the local \<open>index\<close>
  and \<open>preparseState\<close>. It ends at the closing slash, or at a line terminator, where the
  function sets \<open>this.index\<close> and returns \<open>this.token\<close>, or by an error.
\<close>

datatype RegExpBody = BodyEnd Parser int | LineBreak Parser

function scanRegularExpression_body ::
    "Parser \<Rightarrow> int \<Rightarrow> RegExpState set \<Rightarrow> thrown + RegExpBody" where
  "scanRegularExpression_body s i st =
     (let ch = charCodeAt (source s) i;
          i1 = i + 1;
          s1 = s\<lparr>column := column s + 1\<rparr>
      in if RegExpState_Escape \<in> st then
           (if i1 \<ge> int (length (source s1)) then error Errors_UnterminatedRegExp
            else scanRegularExpression_body s1 i1 (st - {RegExpState_Escape}))
         else if ch = Some Chars_Slash \<and> st = {} then Inr (BodyEnd s1 i1)
         else if isLineTerminatorCase ch then Inr (LineBreak (s1\<lparr>index := i1\<rparr>))
         else
           (let st1 =
                  (if ch = Some Chars_Backslash then insert RegExpState_Escape st
                   else if ch = Some Chars_LeftBracket then insert RegExpState_Class st
                   else if ch = Some Chars_RightBracket then st \<inter> {RegExpState_Escape}
                   else st)
            in if i1 \<ge> int (length (source s1)) then error Errors_UnterminatedRegExp
               else scanRegularExpression_body s1 i1 st1))"
  by pat_completeness auto
termination
  by (relation "measure (\<lambda>(s, i, st). nat (int (length (source s)) - i))") auto

declare scanRegularExpression_body.simps [simp del]

text \<open>
  The second loop, over the flags, with the local \<open>index\<close> and \<open>mask\<close> (here \<open>msk\<close>). The case of
  \<open>s\<close> runs on into the default case when the \<open>next\<close> option is off.
\<close>

definition regExpFlagOf :: "Parser \<Rightarrow> code \<Rightarrow> RegExpFlag option" where
  "regExpFlagOf s c =
     (if c = Some Chars_LowerG then Some RegExpFlag_Global
      else if c = Some Chars_LowerI then Some RegExpFlag_IgnoreCase
      else if c = Some Chars_LowerM then Some RegExpFlag_Multiline
      else if c = Some Chars_LowerU then Some RegExpFlag_Unicode
      else if c = Some Chars_LowerY then Some RegExpFlag_Sticky
      else if c = Some Chars_LowerS \<and> Flags_OptionsNext \<in> flags s then Some RegExpFlag_DotAll
      else None)"

function scanRegularExpression_flags ::
    "Imports \<Rightarrow> Parser \<Rightarrow> int \<Rightarrow> RegExpFlag set \<Rightarrow> thrown + (Parser \<times> int)" where
  "scanRegularExpression_flags imp s i msk =
     (if i < int (length (source s)) then
        (if \<not> isIdentifierPart imp (charCodeAt (source s) i) then Inr (s, i)
         else
           (let c = charCodeAt (source s) i in
            case regExpFlagOf s c of
              Some f \<Rightarrow>
                if f \<in> msk then error (Errors_DuplicateRegExpFlag [nat (the c)])
                else scanRegularExpression_flags imp (s\<lparr>column := column s + 1\<rparr>) (i + 1)
                       (insert f msk)
            | None \<Rightarrow>
                (let (c1, s1) = (if js_ge c 55296 \<and> js_le c 56320 then nextUnicodeChar s
                                 else (c, s))
                 in if \<not> isIdentifierPart imp c1 then Inr (s1, i)
                    else error Errors_UnexpectedTokenRegExpFlag)))
      else Inr (s, i))"
  by pat_completeness auto
termination
  by (relation "measure (\<lambda>(imp, s, i, msk). nat (int (length (source s)) - i))") auto

declare scanRegularExpression_flags.simps [simp del]

definition scanRegularExpression :: "Imports \<Rightarrow> Parser \<Rightarrow> thrown + (Token \<times> Parser)" where
  "scanRegularExpression imp s =
     (let bodyStart = startPos s + 1 in
      case scanRegularExpression_body s bodyStart {} of
        Inl e \<Rightarrow> Inl e
      | Inr (LineBreak s1) \<Rightarrow> Inr (token s1, s1)
      | Inr (BodyEnd s1 i) \<Rightarrow>
          (let bodyEnd = i - 1;
               flagsStart = i
           in case scanRegularExpression_flags imp s1 i {} of
                Inl e \<Rightarrow> Inl e
              | Inr (s2, i2) \<Rightarrow>
                  (let s3 = s2\<lparr>endPos := index s2\<rparr>;
                       s4 = s3\<lparr>index := i2\<rparr>;
                       pattern = slice (source s4) bodyStart bodyEnd;
                       fl = slice (source s4) flagsStart (index s4);
                       s5 = s4\<lparr>tokenRegExp := Some (pattern, fl)\<rparr>;
                       s6 = s5\<lparr>tokenValue := RegExpValue pattern fl\<rparr>
                   in Inr (Token_RegularExpression, setRaw (startPos s6) s6))))"

section \<open>Parser: tokens ahead\<close>

definition expect :: "Imports \<Rightarrow> Context set \<Rightarrow> Token \<Rightarrow> Parser \<Rightarrow> thrown + Parser" where
  "expect imp context t s =
     (if token s \<noteq> t then error Errors_Unexpected
      else
        (case nextToken imp context s of
           Inl e \<Rightarrow> Inl e
         | Inr (tk, s1) \<Rightarrow> Inr s1))"

definition canConsumeSemicolon :: "Parser \<Rightarrow> bool" where
  "canConsumeSemicolon s =
     (if Flags_LineTerminator \<in> flags s then True
      else if token s = Token_Semicolon \<or> token s = Token_RightBrace \<or>
              token s = Token_EndOfSource
      then True
      else False)"

definition consumeSemicolon :: "Imports \<Rightarrow> Context set \<Rightarrow> Parser \<Rightarrow> thrown + Parser" where
  "consumeSemicolon imp context s =
     (if \<not> canConsumeSemicolon s then error (Errors_UnexpectedToken (token s))
      else if token s = Token_Semicolon then expect imp context Token_Semicolon s
      else Inr s)"






section \<open>Parser: reinterpreting an expression as a pattern\<close>

text \<open>
  The syntax tree nodes that \<open>reinterpretExpressionAsPattern\<close> tells apart by \<open>type\<close>,
  with the fields it reads. \<open>Property\<close> has \<open>kind\<close>, \<open>key\<close>, \<open>computed\<close>, \<open>value\<close>,
  \<open>method\<close> and \<open>shorthand\<close>; an element of \<open>elements\<close> is \<open>None\<close> for a hole;
  \<open>OtherNode ty\<close> is a node of any other type. The walker changes nodes in place; here
  it returns the changed node.
\<close>

datatype Node =
    Identifier jsstring
  | MemberExpression Node Node bool
  | AssignmentPattern Node Node
  | ArrayPattern "Node option list"
  | ObjectPattern "Node list"
  | ObjectExpression "Node list"
  | ArrayExpression "Node option list"
  | AssignmentExpression jsstring Node Node
  | SpreadElement Node
  | RestElement Node
  | Property jsstring Node bool Node bool bool
  | OtherNode jsstring

text \<open>
  \<open>property.kind\<close> is \<open>undefined\<close> on a node that is no \<open>Property\<close>, so
  \<open>property.kind !== 'init'\<close> holds for it.
\<close>

fun reinterpretExpressionAsPattern :: "Context set \<Rightarrow> Token \<Rightarrow> Node \<Rightarrow> thrown + Node"
  and reinterpretProperties :: "Context set \<Rightarrow> Token \<Rightarrow> Node list \<Rightarrow> thrown + Node list"
  and reinterpretElements :: "Context set \<Rightarrow> Token \<Rightarrow> Node option list \<Rightarrow> thrown + Node option list"
where
  "reinterpretExpressionAsPattern context tok (Identifier name) = Inr (Identifier name)"
| "reinterpretExpressionAsPattern context tok (MemberExpression ob pr computed) =
     Inr (MemberExpression ob pr computed)"
| "reinterpretExpressionAsPattern context tok (AssignmentPattern left right) =
     Inr (AssignmentPattern left right)"
| "reinterpretExpressionAsPattern context tok (ArrayPattern elements) =
     Inr (ArrayPattern elements)"
| "reinterpretExpressionAsPattern context tok (ObjectPattern properties) =
     Inr (ObjectPattern properties)"
| "reinterpretExpressionAsPattern context tok (ObjectExpression properties) =
     (case reinterpretProperties context tok properties of
        Inl e \<Rightarrow> Inl e
      | Inr properties1 \<Rightarrow> Inr (ObjectPattern properties1))"
| "reinterpretExpressionAsPattern context tok (ArrayExpression elements) =
     (case reinterpretElements context tok elements of
        Inl e \<Rightarrow> Inl e
      | Inr elements1 \<Rightarrow> Inr (ArrayPattern elements1))"
| "reinterpretExpressionAsPattern context tok (AssignmentExpression operator left right) =
     (if operator \<noteq> js ''='' then Inl (ParseError (Errors_UnexpectedToken tok))
      else
        (case reinterpretExpressionAsPattern context tok left of
           Inl e \<Rightarrow> Inl e
         | Inr left1 \<Rightarrow> Inr (AssignmentPattern left1 right)))"
| "reinterpretExpressionAsPattern context tok (SpreadElement argument) =
     (case argument of
        AssignmentExpression operator left right \<Rightarrow>
          Inl (ParseError (if Context_ForStatement \<in> context then Errors_InvalidLHSInForIn
                           else Errors_InvalidLHSInAssignment))
      | _ \<Rightarrow>
          (case reinterpretExpressionAsPattern context tok argument of
             Inl e \<Rightarrow> Inl e
           | Inr argument1 \<Rightarrow> Inr (RestElement argument1)))"
| "reinterpretExpressionAsPattern context tok (RestElement argument) =
     Inl (ParseError (Errors_UnexpectedToken tok))"
| "reinterpretExpressionAsPattern context tok (Property kind key computed v method shorthand) =
     Inl (ParseError (Errors_UnexpectedToken tok))"
| "reinterpretExpressionAsPattern context tok (OtherNode ty) =
     Inl (ParseError (Errors_UnexpectedToken tok))"
| "reinterpretProperties context tok [] = Inr []"
| "reinterpretProperties context tok (Property kind key computed v method shorthand # ps) =
     (if kind \<noteq> js ''init'' then Inl (ParseError (Errors_UnexpectedToken tok))
      else
        (case reinterpretExpressionAsPattern context tok v of
           Inl e \<Rightarrow> Inl e
         | Inr v1 \<Rightarrow>
             (case reinterpretProperties context tok ps of
                Inl e \<Rightarrow> Inl e
              | Inr ps1 \<Rightarrow> Inr (Property kind key computed v1 method shorthand # ps1))))"
| "reinterpretProperties context tok (p # ps) = Inl (ParseError (Errors_UnexpectedToken tok))"
| "reinterpretElements context tok [] = Inr []"
| "reinterpretElements context tok (None # es) =
     (case reinterpretElements context tok es of
        Inl e \<Rightarrow> Inl e
      | Inr es1 \<Rightarrow> Inr (None # es1))"
| "reinterpretElements context tok (Some el # es) =
     (case reinterpretExpressionAsPattern context tok el of
        Inl e \<Rightarrow> Inl e
      | Inr el1 \<Rightarrow>
          (case reinterpretElements context tok es of
             Inl e \<Rightarrow> Inl e
           | Inr es1 \<Rightarrow> Inr (Some el1 # es1)))"

definition isPatternForm :: "Node \<Rightarrow> bool" where
  "isPatternForm n =
     (case n of
        Identifier name \<Rightarrow> True
      | MemberExpression ob pr computed \<Rightarrow> True
      | AssignmentPattern left right \<Rightarrow> True
      | ArrayPattern elements \<Rightarrow> True
      | ObjectPattern properties \<Rightarrow> True
      | _ \<Rightarrow> False)"

definition isSpreadElement :: "Node \<Rightarrow> bool" where
  "isSpreadElement n = (case n of SpreadElement argument \<Rightarrow> True | _ \<Rightarrow> False)"

text \<open>The walker applied to a node, and then again to the node it has left.\<close>

definition reinterpretTwice :: "Context set \<Rightarrow> Token \<Rightarrow> Node \<Rightarrow> thrown + Node" where
  "reinterpretTwice context tok n =
     (case reinterpretExpressionAsPattern context tok n of
        Inl e \<Rightarrow> Inl e
      | Inr n1 \<Rightarrow> reinterpretExpressionAsPattern context tok n1)"

section \<open>Inputs for the examples\<close>

text \<open>
  The imported tables on the ASCII letters, digits, \<open>$\<close> and \<open>_\<close>, with the words
  \<open>function\<close>, \<open>let\<close> and \<open>var\<close> as keywords: enough to run the scanner on the
  examples below.
\<close>

definition asciiImports :: Imports where
  "asciiImports =
     \<lparr>isIdentifierPart =
        (\<lambda>ch. (js_ge ch Chars_Zero \<and> js_le ch Chars_Nine) \<or>
              (js_ge ch Chars_UpperA \<and> js_le ch Chars_UpperZ) \<or>
              (js_ge ch Chars_LowerA \<and> js_le ch Chars_LowerZ) \<or>
              ch = Some Chars_Dollar \<or> ch = Some Chars_Underscore),
      isValidIdentifierStart =
        (\<lambda>ch. (js_ge ch Chars_UpperA \<and> js_le ch Chars_UpperZ) \<or>
              (js_ge ch Chars_LowerA \<and> js_le ch Chars_LowerZ) \<or>
              ch = Some Chars_Dollar \<or> ch = Some Chars_Underscore),
      fromCodePoint = (\<lambda>c. [nat c]),
      descKeyword =
        (\<lambda>w. if w = js ''function'' then Some Token_FunctionKeyword
             else if w = js ''let'' \<or> w = js ''var'' then Some (Token_Keyword w)
             else None),
      hasBindingPatternMask =
        (\<lambda>t. t = Token_Identifier \<or> t = Token_LeftBrace \<or> t = Token_LeftBracket)\<rparr>"

text \<open>\<open>nextTokens n\<close> calls \<open>nextToken\<close> \<open>n\<close> times, as the parser does token by token.\<close>

fun nextTokens :: "nat \<Rightarrow> Imports \<Rightarrow> Context set \<Rightarrow> Parser \<Rightarrow> thrown + Parser" where
  "nextTokens 0 imp context s = Inr s"
| "nextTokens (Suc n) imp context s =
     (case nextToken imp context s of
        Inl e \<Rightarrow> Inl e
      | Inr (tk, s1) \<Rightarrow> nextTokens n imp context s1)"

section \<open>Predicates used to state the properties\<close>



section \<open>Properties of the scope validator\<close>

lemma props_setProp:
  "props (setProp h f name m a) = (if a = f then (props (h f))(name \<mapsto> m) else props (h a))"
  by (simp add: setProp_def)

lemma prototype_setProp: "prototype (setProp h f name m a) = prototype (h a)"
  by (simp add: setProp_def)

lemma getProp_setProp_Shadowable:
  "getProp (setProp h f name Shadowable) b name = Some Shadowable \<or>
   getProp (setProp h f name Shadowable) b name = getProp h b name"
proof (induction h b name rule: getProp.induct)
  case (1 h a name)
  show ?case
  proof (cases "props (h a) name = None \<and> a \<noteq> f")
    case False
    then show ?thesis
      by (subst getProp.simps, subst (2) getProp.simps, subst (3) getProp.simps)
         (auto simp: props_setProp prototype_setProp)
  next
    case True
    show ?thesis
    proof (cases "prototype (h a)")
      case None
      with True show ?thesis
        by (subst getProp.simps, subst (2) getProp.simps, subst (3) getProp.simps)
           (simp add: props_setProp prototype_setProp)
    next
      case (Some p)
      show ?thesis
      proof (cases "p < a")
        case False
        with True Some show ?thesis
          by (subst getProp.simps, subst (2) getProp.simps, subst (3) getProp.simps)
             (simp add: props_setProp prototype_setProp)
      next
        case lt: True
        from True Some lt have ih:
          "getProp (setProp h f name Shadowable) p name = Some Shadowable \<or>
           getProp (setProp h f name Shadowable) p name = getProp h p name"
          using 1 by simp
        from True Some lt have l: "getProp (setProp h f name Shadowable) a name
              = getProp (setProp h f name Shadowable) p name"
          by (subst getProp.simps) (simp add: props_setProp prototype_setProp)
        from True Some lt have r: "getProp h a name = getProp h p name"
          by (subst getProp.simps) simp
        from ih l r show ?thesis by simp
      qed
    qed
  qed
qed

lemma addVarName_Inl:
  "lexicalClash name s \<Longrightarrow>
   addVarName name s = Inl (ParseError (Errors_DuplicateIdentifier name))"
  by (auto simp: addVarName_def initFunctionScope_def)

lemma addVarName_Inr:
  "\<not> lexicalClash name s \<Longrightarrow>
   \<exists>s1 f. addVarName name s = Inr s1 \<and> functionScope s1 = Some f \<and>
          props (heap s1 f) name = Some Shadowable \<and>
          (functionScope s \<noteq> None \<longrightarrow>
             functionScope s1 = functionScope s \<and> blockScope s1 = blockScope s \<and>
             parentScope s1 = parentScope s \<and>
             heap s1 = setProp (heap s) f name Shadowable)"
  by (auto simp: addVarName_def initFunctionScope_def objectCreate_def
        Let_def props_setProp split: option.splits)

lemma addVarName_again:
  assumes "addVarName name s = Inr s1"
  shows "\<not> lexicalClash name s1"
proof -
  have nc: "\<not> lexicalClash name s"
    using assms addVarName_Inl by fastforce
  show ?thesis
  proof (cases "functionScope s")
    case None
    with assms show ?thesis
      apply (auto simp: addVarName_def initFunctionScope_def objectCreate_def
        Let_def split: option.splits if_splits)
      apply (subst (asm) getProp.simps)
      apply (simp add: props_setProp)
      done
  next
    case (Some f)
    from addVarName_Inr[OF nc] assms Some
    have s1: "functionScope s1 = Some f" "blockScope s1 = blockScope s"
      "heap s1 = setProp (heap s) f name Shadowable"
      by auto
    show ?thesis
    proof (cases "blockScope s")
      case None
      with s1 show ?thesis by simp
    next
      case b: (Some b)
      from nc Some b have "getProp (heap s) b name \<noteq> Some NonShadowable"
        by simp
      with getProp_setProp_Shadowable[of "heap s" f name b]
      have "getProp (heap s1) b name \<noteq> Some NonShadowable"
        using s1 by auto
      with s1 b show ?thesis by simp
    qed
  qed
qed

text \<open>
  C10. \<open>addVarName\<close> throws only \<open>DuplicateIdentifier\<close>, and exactly when the name read
  from the current block scope through its chain is \<open>NonShadowable\<close>. In every other
  state, also when the name is already a \<open>Shadowable\<close> binding, it returns with the name
  recorded as \<open>Shadowable\<close> in the function scope. A second \<open>addVarName\<close> of the same
  name right after a successful one never throws.
\<close>

theorem addVarName_duplicate_var:
  "(addVarName name s = Inl e \<longrightarrow>
      e = ParseError (Errors_DuplicateIdentifier name) \<and> lexicalClash name s) \<and>
   (lexicalClash name s \<longrightarrow>
      addVarName name s = Inl (ParseError (Errors_DuplicateIdentifier name))) \<and>
   (\<not> lexicalClash name s \<longrightarrow>
      (\<exists>s1 f. addVarName name s = Inr s1 \<and> functionScope s1 = Some f \<and>
               props (heap s1 f) name = Some Shadowable)) \<and>
   (addVarName name s = Inr s1 \<longrightarrow> (\<exists>s2. addVarName name s1 = Inr s2))"
proof -
  have a: "addVarName name s = Inl e \<longrightarrow>
      e = ParseError (Errors_DuplicateIdentifier name) \<and> lexicalClash name s"
    using addVarName_Inr[where name=name and s=s] addVarName_Inl[where name=name and s=s]
    by fastforce
  have b: "lexicalClash name s \<longrightarrow>
      addVarName name s = Inl (ParseError (Errors_DuplicateIdentifier name))"
    using addVarName_Inl[where name=name and s=s] by blast
  have c: "\<not> lexicalClash name s \<longrightarrow>
      (\<exists>s1 f. addVarName name s = Inr s1 \<and> functionScope s1 = Some f \<and>
               props (heap s1 f) name = Some Shadowable)"
    using addVarName_Inr[where name=name and s=s] by blast
  have d: "addVarName name s = Inr s1 \<longrightarrow> (\<exists>s2. addVarName name s1 = Inr s2)"
  proof
    assume "addVarName name s = Inr s1"
    from addVarName_Inr[OF addVarName_again[OF this]]
    show "\<exists>s2. addVarName name s1 = Inr s2" by blast
  qed
  from a b c d show ?thesis by blast
qed

theorem addVarName_duplicate_var_witness:
  "\<exists>s1 s2. addVarName (js ''x'') emptyScopes = Inr s1 \<and> addVarName (js ''x'') s1 = Inr s2"
proof -
  have "\<not> lexicalClash (js ''x'') emptyScopes"
    by (simp add: emptyScopes_def)
  with addVarName_duplicate_var[of "js ''x''" emptyScopes]
  obtain s1 where s1: "addVarName (js ''x'') emptyScopes = Inr s1"
    by blast
  with addVarName_duplicate_var[of "js ''x''" emptyScopes _ s1]
  obtain s2 where "addVarName (js ''x'') s1 = Inr s2"
    by blast
  with s1 show ?thesis by blast
qed







section \<open>Properties of the lexer\<close>

lemma nextChar_hasNext: "nextChar s = Some c \<Longrightarrow> hasNext s"
  by (simp add: nextChar_def charCodeAt_def hasNext_def split: if_splits)

lemma skipShebangComment_comments: "comments (skipShebangComment s) = comments s"
proof (induction s rule: skipShebangComment.induct)
  case (1 s)
  show ?case
  proof (cases "hasNext s \<and> \<not> isLineTerminatorCase (nextChar s)")
    case True
    then have e: "skipShebangComment s = skipShebangComment (advance s)"
      by (subst skipShebangComment.simps) simp
    from 1 True have "comments (skipShebangComment (advance s)) = comments (advance s)" by simp
    with e show ?thesis by (simp add: advance_def)
  next
    case False
    then show ?thesis
      by (subst skipShebangComment.simps) (auto simp: Let_def advanceNewline_def)
  qed
qed

text \<open>
  C6. What \<open>scanToken\<close> does at a \<open>#\<close>. At index 0 and followed by \<open>!\<close> the
  shebang is skipped by \<open>skipShebangComment\<close>, which leaves the comment sink as it is,
  and the loop goes on. At any other \<open>#\<close> (another index, or no \<open>!\<close> after it) the
  code does not throw \<open>Unexpected\<close>: it runs on into the case of \<open>{\<close>, consumes the
  \<open>#\<close> and returns \<open>Token.LeftBrace\<close>.
\<close>

theorem scanToken_hash:
  "(nextChar s = Some Chars_Hash \<and>
    \<not> (index s = 0 \<and> charCodeAt (source s) 1 = Some Chars_Exclamation) \<longrightarrow>
      (\<exists>s'. scanToken imp context s = Inr (Token_LeftBrace, s') \<and> index s' = index s + 1)) \<and>
   (nextChar s = Some Chars_Hash \<and> index s = 0 \<and>
    charCodeAt (source s) 1 = Some Chars_Exclamation \<longrightarrow>
      (\<exists>s1. scanToken imp context s = scanToken_loop imp context (skipShebangComment s1) \<and>
            comments (skipShebangComment s1) = comments s))"
proof -
  let ?p = "s\<lparr>flags := flags s - {Flags_LineTerminator},
          endPos := index s, endColumn := column s, endLine := line s\<rparr>"
  let ?q = "?p\<lparr>startPos := index ?p, startColumn := column ?p, startLine := line ?p\<rparr>"
  have nq: "nextChar ?q = nextChar s" "index ?q = index s" "source ?q = source s"
    "hasNext ?p = hasNext s"
    by (simp_all add: nextChar_def hasNext_def)
  have a: "nextChar s = Some Chars_Hash \<and>
    \<not> (index s = 0 \<and> charCodeAt (source s) 1 = Some Chars_Exclamation) \<longrightarrow>
      (\<exists>s'. scanToken imp context s = Inr (Token_LeftBrace, s') \<and> index s' = index s + 1)"
  proof
    assume h: "nextChar s = Some Chars_Hash \<and>
      \<not> (index s = 0 \<and> charCodeAt (source s) 1 = Some Chars_Exclamation)"
    then have hn: "hasNext s" using nextChar_hasNext by blast
    from h have sw: "scanToken_switch imp context ?q = Return (Inr (Token_LeftBrace, advance ?q))"
      unfolding scanToken_switch_def Let_def nq
      by (auto simp: isWhiteSpaceCase_def js_ge_def js_le_def)
    have "scanToken imp context s = Inr (Token_LeftBrace, advance ?q)"
      unfolding scanToken_def
      by (subst scanToken_loop.simps) (simp only: nq hn if_True sw LoopStep.case)
    then show "\<exists>s'. scanToken imp context s = Inr (Token_LeftBrace, s') \<and> index s' = index s + 1"
      by (simp add: advance_def)
  qed
  have b: "nextChar s = Some Chars_Hash \<and> index s = 0 \<and>
    charCodeAt (source s) 1 = Some Chars_Exclamation \<longrightarrow>
      (\<exists>s1. scanToken imp context s = scanToken_loop imp context (skipShebangComment s1) \<and>
            comments (skipShebangComment s1) = comments s)"
  proof
    assume h: "nextChar s = Some Chars_Hash \<and> index s = 0 \<and>
      charCodeAt (source s) 1 = Some Chars_Exclamation"
    then have hn: "hasNext s" using nextChar_hasNext by blast
    from h have sw: "scanToken_switch imp context ?q
        = Continue (skipShebangComment (advanceTwice ?q))"
      unfolding scanToken_switch_def Let_def nq
      by (auto simp: isWhiteSpaceCase_def js_ge_def js_le_def)
    have "scanToken imp context s = scanToken_loop imp context (skipShebangComment (advanceTwice ?q))"
      unfolding scanToken_def
      by (subst scanToken_loop.simps) (simp only: nq hn if_True sw LoopStep.case)
    moreover have "comments (skipShebangComment (advanceTwice ?q)) = comments s"
      by (simp add: skipShebangComment_comments advanceTwice_def)
    ultimately show "\<exists>s1. scanToken imp context s = scanToken_loop imp context (skipShebangComment s1) \<and>
            comments (skipShebangComment s1) = comments s"
      by blast
  qed
  from a b show ?thesis by blast
qed

theorem scanToken_hash_witness:
  "(case scanToken asciiImports {} (newParser (js ''#x'') noOptions) of
      Inl e \<Rightarrow> False | Inr (tk, s') \<Rightarrow> tk = Token_LeftBrace \<and> index s' = 1)"
proof -
  have n: "nextChar (newParser (js ''#x'') noOptions) = Some Chars_Hash"
    by code_simp
  have c: "charCodeAt (source (newParser (js ''#x'') noOptions)) 1 \<noteq> Some Chars_Exclamation"
    by code_simp
  have i: "index (newParser (js ''#x'') noOptions) = 0"
    by (simp add: newParser_def)
  from scanToken_hash[of "newParser (js ''#x'') noOptions" asciiImports "{}"] n c i
  show ?thesis by auto
qed























text \<open>
  What \<open>setRaw\<close> and \<open>scanBigInt\<close> leave, for a parser with the \<open>raw\<close> option: the raw
  text is the source from \<open>startPos\<close> to the index.
\<close>

lemma setRaw_raw:
  "Flags_OptionsRaw \<in> flags s \<Longrightarrow>
   tokenRaw (setRaw (startPos s) s) = slice (source s) (startPos s) (index s) \<and>
   source (setRaw (startPos s) s) = source s \<and> startPos (setRaw (startPos s) s) = startPos s \<and>
   index (setRaw (startPos s) s) = index s \<and> tokenValue (setRaw (startPos s) s) = tokenValue s"
  by (simp add: setRaw_def)












lemma regExpFlagOf_column [simp]:
  "regExpFlagOf (s\<lparr>column := k\<rparr>) c = regExpFlagOf s c"
  by (simp add: regExpFlagOf_def)

lemma scanRegularExpression_flags_duplicate:
  assumes "i < int (length (source s))"
    and "isIdentifierPart imp (charCodeAt (source s) i)"
    and "regExpFlagOf s (charCodeAt (source s) i) = Some f" and "f \<in> msk"
  shows "scanRegularExpression_flags imp s i msk
           = Inl (ParseError (Errors_DuplicateRegExpFlag [nat (the (charCodeAt (source s) i))]))"
  using assms
  by (subst scanRegularExpression_flags.simps) (simp add: Let_def error_def)

lemma scanRegularExpression_flags_unknown:
  assumes "\<forall>c. js_ge c 55296 \<and> js_le c 56320 \<longrightarrow> \<not> isIdentifierPart imp c"
    and "i < int (length (source s))"
    and "isIdentifierPart imp (charCodeAt (source s) i)"
    and "regExpFlagOf s (charCodeAt (source s) i) = None"
  shows "scanRegularExpression_flags imp s i msk = Inl (ParseError Errors_UnexpectedTokenRegExpFlag)"
proof -
  from assms(1,3) have "\<not> (js_ge (charCodeAt (source s) i) 55296 \<and>
      js_le (charCodeAt (source s) i) 56320)"
    by blast
  with assms(2,3,4) show ?thesis
    by (subst scanRegularExpression_flags.simps) (auto simp: Let_def error_def)
qed

lemma scanRegularExpression_flags_fresh:
  assumes "i < int (length (source s))"
    and "isIdentifierPart imp (charCodeAt (source s) i)"
    and "regExpFlagOf s (charCodeAt (source s) i) = Some f" and "f \<notin> msk"
  shows "scanRegularExpression_flags imp s i msk
           = scanRegularExpression_flags imp (s\<lparr>column := column s + 1\<rparr>) (i + 1) (insert f msk)"
  using assms
  by (subst scanRegularExpression_flags.simps) (simp add: Let_def)

lemma scanRegularExpression_flags_success:
  "scanRegularExpression_flags imp s i msk = Inr (s', i') \<Longrightarrow>
   i \<le> i' \<and>
   (\<forall>j. i \<le> j \<and> j < i' \<longrightarrow>
        (\<exists>f. regExpFlagOf s (charCodeAt (source s) j) = Some f \<and> f \<notin> msk)) \<and>
   (\<forall>j k. i \<le> j \<and> j < k \<and> k < i' \<longrightarrow>
        regExpFlagOf s (charCodeAt (source s) j) \<noteq> regExpFlagOf s (charCodeAt (source s) k))"
proof (induction imp s i msk rule: scanRegularExpression_flags.induct)
  case (1 imp s i msk)
  let ?c = "charCodeAt (source s) i"
  show ?case
  proof (cases "i < int (length (source s)) \<and> isIdentifierPart imp ?c")
    case False
    with "1.prems" have "i' = i"
      by (subst (asm) scanRegularExpression_flags.simps) (auto split: if_splits)
    then show ?thesis by auto
  next
    case True
    show ?thesis
    proof (cases "regExpFlagOf s ?c")
      case None
      with True "1.prems" have "i' = i"
        by (subst (asm) scanRegularExpression_flags.simps)
           (auto simp: Let_def error_def split: if_splits prod.splits)
      then show ?thesis by auto
    next
      case (Some f)
      show ?thesis
      proof (cases "f \<in> msk")
        case True
        with \<open>i < int (length (source s)) \<and> isIdentifierPart imp ?c\<close> Some "1.prems"
        show ?thesis
          by (subst (asm) scanRegularExpression_flags.simps) (simp add: Let_def error_def)
      next
        case False
        let ?t = "s\<lparr>column := column s + 1\<rparr>"
        from True Some False "1.prems"
        have r: "scanRegularExpression_flags imp ?t (i + 1) (insert f msk) = Inr (s', i')"
          using scanRegularExpression_flags_fresh[of i s imp f msk] by simp
        from "1.IH"[OF _ _ refl Some False r] True
        have ih: "i + 1 \<le> i'"
          "\<forall>j. i + 1 \<le> j \<and> j < i' \<longrightarrow>
             (\<exists>g. regExpFlagOf s (charCodeAt (source s) j) = Some g \<and> g \<notin> insert f msk)"
          "\<forall>j k. i + 1 \<le> j \<and> j < k \<and> k < i' \<longrightarrow>
             regExpFlagOf s (charCodeAt (source s) j) \<noteq> regExpFlagOf s (charCodeAt (source s) k)"
          by simp_all
        have a: "i \<le> i'" using ih(1) by simp
        have b: "\<forall>j. i \<le> j \<and> j < i' \<longrightarrow>
             (\<exists>g. regExpFlagOf s (charCodeAt (source s) j) = Some g \<and> g \<notin> msk)"
        proof (intro allI impI)
          fix j assume j: "i \<le> j \<and> j < i'"
          show "\<exists>g. regExpFlagOf s (charCodeAt (source s) j) = Some g \<and> g \<notin> msk"
          proof (cases "j = i")
            case True
            with Some False show ?thesis by simp
          next
            case False
            with j have "i + 1 \<le> j \<and> j < i'" by simp
            with ih(2) show ?thesis by blast
          qed
        qed
        have c: "\<forall>j k. i \<le> j \<and> j < k \<and> k < i' \<longrightarrow>
             regExpFlagOf s (charCodeAt (source s) j) \<noteq> regExpFlagOf s (charCodeAt (source s) k)"
        proof (intro allI impI)
          fix j k assume jk: "i \<le> j \<and> j < k \<and> k < i'"
          show "regExpFlagOf s (charCodeAt (source s) j) \<noteq> regExpFlagOf s (charCodeAt (source s) k)"
          proof (cases "j = i")
            case True
            from jk True have "i + 1 \<le> k \<and> k < i'" by simp
            with ih(2) obtain g where "regExpFlagOf s (charCodeAt (source s) k) = Some g"
              "g \<notin> insert f msk" by blast
            with True Some show ?thesis by auto
          next
            case False
            with jk have "i + 1 \<le> j \<and> j < k \<and> k < i'" by simp
            with ih(3) show ?thesis by blast
          qed
        qed
        from a b c show ?thesis by blast
      qed
    qed
  qed
qed

text \<open>
  C3. The flag loop of \<open>scanRegularExpression\<close>, at the character \<open>c\<close> at \<open>i\<close> with
  the flags seen so far in \<open>msk\<close>; \<open>regExpFlagOf\<close> gives the flag of \<open>g\<close>, \<open>i\<close>,
  \<open>m\<close>, \<open>u\<close>, \<open>y\<close>, and of \<open>s\<close> when the \<open>next\<close> option is on. A flag already in
  \<open>msk\<close> is the fatal error \<open>DuplicateRegExpFlag\<close> with that character. Any other
  identifier-part character is the fatal error \<open>UnexpectedTokenRegExpFlag\<close> (given that
  the Unicode table counts no lone surrogate code unit as an identifier part). A flag
  not yet seen is added to \<open>msk\<close> and the loop goes on. So whenever the loop ends without
  error, all the characters it has passed are flags and no flag occurs twice. In
  particular, after \<open>/\<close> is scanned as the first token of \<open>/./gig;\<close>,
  \<open>scanRegularExpression\<close> throws \<open>DuplicateRegExpFlag\<close> for \<open>g\<close>.
\<close>

theorem regExp_flags_once:
  "(i < int (length (source s)) \<and> isIdentifierPart imp (charCodeAt (source s) i) \<and>
    regExpFlagOf s (charCodeAt (source s) i) = Some f \<and> f \<in> msk \<longrightarrow>
      scanRegularExpression_flags imp s i msk
        = Inl (ParseError (Errors_DuplicateRegExpFlag [nat (the (charCodeAt (source s) i))]))) \<and>
   ((\<forall>c. js_ge c 55296 \<and> js_le c 56320 \<longrightarrow> \<not> isIdentifierPart imp c) \<and>
    i < int (length (source s)) \<and> isIdentifierPart imp (charCodeAt (source s) i) \<and>
    regExpFlagOf s (charCodeAt (source s) i) = None \<longrightarrow>
      scanRegularExpression_flags imp s i msk
        = Inl (ParseError Errors_UnexpectedTokenRegExpFlag)) \<and>
   (i < int (length (source s)) \<and> isIdentifierPart imp (charCodeAt (source s) i) \<and>
    regExpFlagOf s (charCodeAt (source s) i) = Some f \<and> f \<notin> msk \<longrightarrow>
      scanRegularExpression_flags imp s i msk
        = scanRegularExpression_flags imp (s\<lparr>column := column s + 1\<rparr>) (i + 1) (insert f msk)) \<and>
   (scanRegularExpression_flags imp s i msk = Inr (s', i') \<longrightarrow>
      i \<le> i' \<and>
      (\<forall>j. i \<le> j \<and> j < i' \<longrightarrow>
           (\<exists>g. regExpFlagOf s (charCodeAt (source s) j) = Some g \<and> g \<notin> msk)) \<and>
      (\<forall>j k. i \<le> j \<and> j < k \<and> k < i' \<longrightarrow>
           regExpFlagOf s (charCodeAt (source s) j)
             \<noteq> regExpFlagOf s (charCodeAt (source s) k))) \<and>
   (case nextToken asciiImports {} (newParser (js ''/./gig;'') noOptions) of
      Inl e \<Rightarrow> False
    | Inr (tk, p) \<Rightarrow> tk = Token_Divide \<and>
        (case scanRegularExpression asciiImports p of
           Inl e \<Rightarrow> e = ParseError (Errors_DuplicateRegExpFlag (js ''g''))
         | Inr r \<Rightarrow> False))"
proof -
  have e: "(case nextToken asciiImports {} (newParser (js ''/./gig;'') noOptions) of
      Inl e \<Rightarrow> False
    | Inr (tk, p) \<Rightarrow> tk = Token_Divide \<and>
        (case scanRegularExpression asciiImports p of
           Inl e \<Rightarrow> e = ParseError (Errors_DuplicateRegExpFlag (js ''g''))
         | Inr r \<Rightarrow> False))"
    by code_simp
  from e scanRegularExpression_flags_duplicate[of i s imp f msk]
    scanRegularExpression_flags_unknown[of imp i s msk]
    scanRegularExpression_flags_fresh[of i s imp f msk]
    scanRegularExpression_flags_success[of imp s i msk s' i']
  show ?thesis by blast
qed

theorem regExp_flags_once_witness:
  "scanRegularExpression_flags asciiImports (newParser (js ''/./gig;'') noOptions) 5
       {RegExpFlag_Global, RegExpFlag_IgnoreCase}
     = Inl (ParseError (Errors_DuplicateRegExpFlag (js ''g''))) \<and>
   scanRegularExpression_flags asciiImports (newParser (js ''/./gx;'') noOptions) 4
       {RegExpFlag_Global}
     = Inl (ParseError Errors_UnexpectedTokenRegExpFlag)"
proof -
  let ?p = "newParser (js ''/./gig;'') noOptions"
  let ?q = "newParser (js ''/./gx;'') noOptions"
  have c: "charCodeAt (source ?p) 5 = Some Chars_LowerG" "(5::int) < int (length (source ?p))"
    by (simp_all add: newParser_def js_def charCodeAt_def)
  have d: "charCodeAt (source ?q) 4 = Some Chars_LowerX" "(4::int) < int (length (source ?q))"
    by (simp_all add: newParser_def js_def charCodeAt_def)
  have ip: "isIdentifierPart asciiImports (Some Chars_LowerG)"
    "isIdentifierPart asciiImports (Some Chars_LowerX)"
    by (simp_all add: asciiImports_def js_ge_def js_le_def)
  have sur: "\<forall>c. js_ge c 55296 \<and> js_le c 56320 \<longrightarrow> \<not> isIdentifierPart asciiImports c"
    by (auto simp: asciiImports_def js_ge_def js_le_def split: option.splits)
  have fg: "regExpFlagOf ?p (Some Chars_LowerG) = Some RegExpFlag_Global"
    by (simp add: regExpFlagOf_def)
  have fx: "regExpFlagOf ?q (Some Chars_LowerX) = None"
    by (simp add: regExpFlagOf_def)
  from regExp_flags_once[of 5 ?p asciiImports RegExpFlag_Global
         "{RegExpFlag_Global, RegExpFlag_IgnoreCase}"] c ip(1) fg
  have r1: "scanRegularExpression_flags asciiImports ?p 5 {RegExpFlag_Global, RegExpFlag_IgnoreCase}
     = Inl (ParseError (Errors_DuplicateRegExpFlag (js ''g'')))"
    by (simp add: js_def)
  from regExp_flags_once[of 4 ?q asciiImports _ "{RegExpFlag_Global}"] d ip(2) fx sur
  have r2: "scanRegularExpression_flags asciiImports ?q 4 {RegExpFlag_Global}
     = Inl (ParseError Errors_UnexpectedTokenRegExpFlag)"
    by simp
  from r1 r2 show ?thesis by simp
qed

section \<open>Properties of the parser functions\<close>

text \<open>
  C1, as stated, fails: in \<open>x;/*\<close>, after two tokens, the current token is \<open>;\<close> and
  \<open>consumeSemicolon\<close> does not succeed. It consumes the \<open>;\<close> by scanning the next
  token, and that scan throws \<open>UnterminatedComment\<close>.
\<close>

theorem consumeSemicolon_counterexample:
  "(case nextTokens 2 asciiImports {} (newParser (js ''x;/*'') noOptions) of
      Inl e \<Rightarrow> False
    | Inr s \<Rightarrow> token s = Token_Semicolon \<and>
        (case consumeSemicolon asciiImports {} s of
           Inl e \<Rightarrow> e = ParseError Errors_UnterminatedComment
         | Inr s1 \<Rightarrow> False))"
  by code_simp

text \<open>
  C1, amended. Where the current token is none of \<open>;\<close>, \<open>}\<close> and end-of-source and
  the \<open>LineTerminator\<close> flag is not set, \<open>consumeSemicolon\<close> throws \<open>UnexpectedToken\<close>
  for the current token (and nothing is consumed: no state is returned). Where the token
  is \<open>}\<close> or end-of-source, or the flag is set, and the token is not \<open>;\<close>, it
  returns the parser unchanged. Where the token is \<open>;\<close> it consumes it: the result is
  the parser after \<open>nextToken\<close>, or the error that \<open>nextToken\<close> throws.
\<close>

theorem consumeSemicolon_amended:
  "(\<not> (token s = Token_Semicolon \<or> token s = Token_RightBrace \<or>
        token s = Token_EndOfSource \<or> Flags_LineTerminator \<in> flags s) \<longrightarrow>
      consumeSemicolon imp context s = Inl (ParseError (Errors_UnexpectedToken (token s)))) \<and>
   ((token s = Token_RightBrace \<or> token s = Token_EndOfSource \<or>
     Flags_LineTerminator \<in> flags s) \<and> token s \<noteq> Token_Semicolon \<longrightarrow>
      consumeSemicolon imp context s = Inr s) \<and>
   (token s = Token_Semicolon \<longrightarrow>
      consumeSemicolon imp context s =
        (case nextToken imp context s of Inl e \<Rightarrow> Inl e | Inr (tk, s1) \<Rightarrow> Inr s1))"
  by (auto simp: consumeSemicolon_def canConsumeSemicolon_def expect_def error_def)

theorem consumeSemicolon_amended_witness:
  "(case nextTokens 1 asciiImports {} (newParser (js ''x y'') noOptions) of
      Inl e \<Rightarrow> False
    | Inr s \<Rightarrow> consumeSemicolon asciiImports {} s
               = Inl (ParseError (Errors_UnexpectedToken Token_Identifier))) \<and>
   (case nextTokens 2 asciiImports {} (newParser (js ''x;y'') noOptions) of
      Inl e \<Rightarrow> False
    | Inr s \<Rightarrow>
        (case consumeSemicolon asciiImports {} s of
           Inl e \<Rightarrow> False
         | Inr s1 \<Rightarrow> token s1 = Token_Identifier \<and> index s1 = 3))"
proof -
  have e1: "(case nextTokens 1 asciiImports {} (newParser (js ''x y'') noOptions) of
      Inl e \<Rightarrow> False
    | Inr s \<Rightarrow> token s = Token_Identifier \<and> Flags_LineTerminator \<notin> flags s)"
    by code_simp
  have e2: "(case nextTokens 2 asciiImports {} (newParser (js ''x;y'') noOptions) of
      Inl e \<Rightarrow> False
    | Inr s \<Rightarrow> token s = Token_Semicolon \<and>
        (case nextToken asciiImports {} s of
           Inl e \<Rightarrow> False
         | Inr (tk, s1) \<Rightarrow> token s1 = Token_Identifier \<and> index s1 = 3))"
    by code_simp
  from e1 obtain s where s: "nextTokens 1 asciiImports {} (newParser (js ''x y'') noOptions) = Inr s"
    "token s = Token_Identifier" "Flags_LineTerminator \<notin> flags s"
    by (auto split: sum.splits)
  from consumeSemicolon_amended[of s asciiImports "{}"] s(2,3)
  have r1: "consumeSemicolon asciiImports {} s
               = Inl (ParseError (Errors_UnexpectedToken Token_Identifier))"
    by simp
  from e2 obtain t where t: "nextTokens 2 asciiImports {} (newParser (js ''x;y'') noOptions) = Inr t"
    "token t = Token_Semicolon"
    "(case nextToken asciiImports {} t of
           Inl e \<Rightarrow> False
         | Inr (tk, s1) \<Rightarrow> token s1 = Token_Identifier \<and> index s1 = 3)"
    by (auto split: sum.splits)
  from consumeSemicolon_amended[of t asciiImports "{}"] t(2)
  have "consumeSemicolon asciiImports {} t =
        (case nextToken asciiImports {} t of Inl e \<Rightarrow> Inl e | Inr (tk, s1) \<Rightarrow> Inr s1)"
    by simp
  with t(3) have r2: "(case consumeSemicolon asciiImports {} t of
           Inl e \<Rightarrow> False
         | Inr s1 \<Rightarrow> token s1 = Token_Identifier \<and> index s1 = 3)"
    by (auto split: sum.splits)
  from s(1) r1 t(1) r2 show ?thesis by simp
qed

lemma reinterpret_pattern_form:
  "isPatternForm n \<Longrightarrow> reinterpretExpressionAsPattern context tok n = Inr n"
  by (cases n) (simp_all add: isPatternForm_def)

lemma reinterpret_result:
  "reinterpretExpressionAsPattern context tok n = Inr n1 \<Longrightarrow>
   isPatternForm n1 \<or> isSpreadElement n"
  by (cases n) (auto simp: isPatternForm_def isSpreadElement_def split: sum.splits if_splits)

text \<open>
  C2, as stated, fails: the walker turns the node \<open>...a\<close> (a \<open>SpreadElement\<close>) into a
  \<open>RestElement\<close>, and a second application to that node throws \<open>UnexpectedToken\<close>,
  because the walker has no case for \<open>RestElement\<close>.
\<close>

theorem reinterpret_idempotent_counterexample:
  "reinterpretTwice {} Token_Assign (SpreadElement (Identifier (js ''a'')))
     \<noteq> reinterpretExpressionAsPattern {} Token_Assign (SpreadElement (Identifier (js ''a'')))"
  by (simp add: reinterpretTwice_def)

text \<open>
  C2, amended. On a node whose type is \<open>Identifier\<close>, \<open>MemberExpression\<close>,
  \<open>AssignmentPattern\<close>, \<open>ArrayPattern\<close> or \<open>ObjectPattern\<close> the walker returns the
  node unchanged, without error. On every node that is not a \<open>SpreadElement\<close>, applying
  the walker twice equals applying it once (the same node or the same error).
\<close>

theorem reinterpret_idempotent_amended:
  "(isPatternForm n \<longrightarrow> reinterpretExpressionAsPattern context tok n = Inr n) \<and>
   (\<not> isSpreadElement n \<longrightarrow>
      reinterpretTwice context tok n = reinterpretExpressionAsPattern context tok n)"
proof -
  have a: "isPatternForm n \<longrightarrow> reinterpretExpressionAsPattern context tok n = Inr n"
    using reinterpret_pattern_form by blast
  have b: "\<not> isSpreadElement n \<longrightarrow>
      reinterpretTwice context tok n = reinterpretExpressionAsPattern context tok n"
  proof
    assume ns: "\<not> isSpreadElement n"
    show "reinterpretTwice context tok n = reinterpretExpressionAsPattern context tok n"
    proof (cases "reinterpretExpressionAsPattern context tok n")
      case (Inl e)
      then show ?thesis by (simp add: reinterpretTwice_def)
    next
      case (Inr n1)
      with ns reinterpret_result[OF Inr] have "isPatternForm n1" by simp
      from reinterpret_pattern_form[OF this] Inr show ?thesis
        by (simp add: reinterpretTwice_def)
    qed
  qed
  from a b show ?thesis by blast
qed

theorem reinterpret_idempotent_amended_witness:
  "reinterpretTwice {} Token_Assign
     (ArrayExpression [Some (Identifier (js ''a'')), None,
        Some (AssignmentExpression (js ''='') (Identifier (js ''b'')) (OtherNode (js ''Literal'')))])
   = Inr (ArrayPattern [Some (Identifier (js ''a'')), None,
        Some (AssignmentPattern (Identifier (js ''b'')) (OtherNode (js ''Literal'')))])"
  using reinterpret_idempotent_amended[of
     "ArrayExpression [Some (Identifier (js ''a'')), None,
        Some (AssignmentExpression (js ''='') (Identifier (js ''b'')) (OtherNode (js ''Literal'')))]"
     "{}" Token_Assign]
  by (simp add: isSpreadElement_def)




end
